theory Spec2Isabelle
  imports Complex_Main "HOL-Library.Word"
begin

section \<open>JavaScript values\<close>

text \<open>
  The gateway of \<^verbatim>\<open>src/index.ts\<close> is untyped JavaScript working on parsed JSON. A
  JavaScript string is a sequence of UTF-16 code units; \<open>lit\<close> embeds the ASCII
  literals of the source.
\<close>

type_synonym code_unit = "16 word"

type_synonym jsstring = "code_unit list"

definition code_unit :: "char \<Rightarrow> code_unit" where
  "code_unit c = of_nat (of_char c)"

definition lit :: "string \<Rightarrow> jsstring" where
  "lit s = map code_unit s"

text \<open>
  A number that \<^verbatim>\<open>JSON.parse\<close> or the program itself produces: a finite value (the two
  zeros are not told apart by any operation used here) or an infinity, which
  \<^verbatim>\<open>JSON.parse\<close> yields for a literal out of range.
\<close>

datatype number = Finite rat | PosInf | NegInf

datatype jsval =
    JUndefined
  | JNull
  | JBool bool
  | JNum number
  | JStr jsstring
  | JArr "jsval list"
  | JObj "(jsstring \<times> jsval) list"

text \<open>
  Exceptions. \<open>Error m\<close> is an \<^verbatim>\<open>Error\<close> object with message \<open>m\<close> (thrown by the
  program, or the reason of a rejected promise); \<open>TypeError c\<close> is raised by the engine.
\<close>

datatype type_error = Nullish_Property | Not_Callable | Not_Primitive

datatype exn = Error jsstring | TypeError type_error

text \<open>\<^verbatim>\<open>ToBoolean\<close>, as used by \<^verbatim>\<open>!x\<close>, \<^verbatim>\<open>x || y\<close> and \<^verbatim>\<open>if (x)\<close>.\<close>

fun truthy :: "jsval \<Rightarrow> bool" where
  "truthy JUndefined = False"
| "truthy JNull = False"
| "truthy (JBool b) = b"
| "truthy (JNum n) = (n \<noteq> Finite 0)"
| "truthy (JStr s) = (s \<noteq> [])"
| "truthy (JArr xs) = True"
| "truthy (JObj kvs) = True"

definition js_or :: "jsval \<Rightarrow> jsval \<Rightarrow> jsval" where
  "js_or a b = (if truthy a then a else b)"

text \<open>
  \<^verbatim>\<open>v.k\<close> for the property names the program reads from data (\<^verbatim>\<open>messages\<close>,
  \<^verbatim>\<open>model\<close>, \<^verbatim>\<open>stream\<close>, \<^verbatim>\<open>role\<close>, \<^verbatim>\<open>content\<close>, \<^verbatim>\<open>success\<close>, \<^verbatim>\<open>data\<close>,
  \<^verbatim>\<open>length\<close>): none of them is defined by a built-in prototype, so the value is the
  own property or \<^verbatim>\<open>undefined\<close>; strings and arrays own \<^verbatim>\<open>length\<close>. Reading a
  property of \<^verbatim>\<open>null\<close> or \<^verbatim>\<open>undefined\<close> throws.
\<close>

fun get_prop :: "jsval \<Rightarrow> jsstring \<Rightarrow> exn + jsval" where
  "get_prop JUndefined k = Inl (TypeError Nullish_Property)"
| "get_prop JNull k = Inl (TypeError Nullish_Property)"
| "get_prop (JObj kvs) k = Inr (case map_of kvs k of Some x \<Rightarrow> x | None \<Rightarrow> JUndefined)"
| "get_prop (JStr s) k =
     Inr (if k = lit ''length'' then JNum (Finite (of_nat (length s))) else JUndefined)"
| "get_prop (JArr xs) k =
     Inr (if k = lit ''length'' then JNum (Finite (of_nat (length xs))) else JUndefined)"
| "get_prop (JBool b) k = Inr JUndefined"
| "get_prop (JNum n) k = Inr JUndefined"

text \<open>
  Reading a result: \<open>select v path\<close> follows object keys and array indices, as
  \<^verbatim>\<open>v.choices[0].message.content\<close> does, and is \<^verbatim>\<open>undefined\<close> where the path leaves
  the value.
\<close>

datatype selector = Key string | Index nat

fun select :: "jsval \<Rightarrow> selector list \<Rightarrow> jsval" where
  "select v [] = v"
| "select (JObj kvs) (Key k # p) =
     (case map_of kvs (lit k) of Some x \<Rightarrow> select x p | None \<Rightarrow> JUndefined)"
| "select (JArr xs) (Index i # p) = (if i < length xs then select (xs ! i) p else JUndefined)"
| "select v (s # p) = JUndefined"

section \<open>The environment\<close>

text \<open>
  What the program receives from outside \<^verbatim>\<open>src/index.ts\<close>: the upstream service behind
  \<^verbatim>\<open>fetch\<close>, the clock, the random source, the client reading the stream, and the
  conversions of the language runtime that are not modelled here.
\<close>

record upstream_request =
  url :: jsstring
  payload :: jsval
  email :: jsstring

text \<open>
  An upstream response: its status, and what \<^verbatim>\<open>await response.text()\<close> and
  \<^verbatim>\<open>await response.json()\<close> give (\<open>Inl\<close>: the promise rejects, for \<^verbatim>\<open>json()\<close> also
  when the body is not JSON).
\<close>

record upstream_response =
  upstream_status :: nat
  upstream_text :: "exn + jsstring"
  upstream_json :: "exn + jsval"

definition ok :: "upstream_response \<Rightarrow> bool" where
  "ok r = (200 \<le> upstream_status r \<and> upstream_status r \<le> 299)"

record world =
  fetch :: "upstream_request \<Rightarrow> exn + upstream_response"
  date_now :: "nat \<Rightarrow> int"
  randomUUID :: "nat \<Rightarrow> jsstring"
  write_ok :: "nat \<Rightarrow> bool"
  number_to_string :: "number \<Rightarrow> jsstring"
  string_to_number :: "jsstring \<Rightarrow> number option"
  builtin_to_string :: "jsstring \<Rightarrow> jsstring"
  json_stringify :: "jsval \<Rightarrow> jsstring"
  type_error_message :: "type_error \<Rightarrow> jsstring"

text \<open>
  \<open>date_now w k\<close> is what the \<open>k\<close>-th call of \<^verbatim>\<open>Date.now()\<close> returns while one response
  is built (milliseconds, counted from 0); \<open>randomUUID w k\<close> the \<open>k\<close>-th
  \<^verbatim>\<open>crypto.randomUUID()\<close> of a request; \<open>write_ok w k\<close> whether the \<open>k\<close>-th
  \<^verbatim>\<open>writer.write\<close> of a stream resolves (it rejects once the client is gone).
  \<open>string_to_number\<close> is \<^verbatim>\<open>StringToNumber\<close> (\<open>None\<close>: \<^verbatim>\<open>NaN\<close>),
  \<open>builtin_to_string\<close> the text of a built-in member of \<^verbatim>\<open>Object.prototype\<close>.
\<close>

definition message :: "world \<Rightarrow> exn \<Rightarrow> jsstring" where
  "message w e = (case e of Error m \<Rightarrow> m | TypeError c \<Rightarrow> type_error_message w c)"

text \<open>\<^verbatim>\<open>Math.floor(Date.now() / 1000)\<close> at the \<open>k\<close>-th reading of the clock.\<close>

definition epoch_seconds :: "world \<Rightarrow> nat \<Rightarrow> jsval" where
  "epoch_seconds w k = JNum (Finite (of_int (date_now w k div 1000)))"

section \<open>Responses\<close>

datatype sse_record = Data jsval | Raw jsstring

datatype http_body = Json jsval | Event_Stream "sse_record list" | No_Body

record response =
  status :: nat
  response_body :: http_body

text \<open>
  \<open>Json v\<close> is the body \<^verbatim>\<open>JSON.stringify(v)\<close>, \<open>Data v\<close> the record
  \<^verbatim>\<open>data: ${JSON.stringify(v)}\n\n\<close> and \<open>Raw s\<close> the text \<open>s\<close> as written. The
  response headers (CORS, content type) are left out.
\<close>

definition createErrorResponse :: "jsstring \<Rightarrow> nat \<Rightarrow> jsstring \<Rightarrow> response" where
  "createErrorResponse msg st code =
     \<lparr>status = st,
      response_body = Json (JObj [(lit ''error'',
               JObj [(lit ''message'', JStr msg),
                     (lit ''type'', JStr (lit ''api_error'')),
                     (lit ''code'', JStr code)])])\<rparr>"

definition handleNormalResponse :: "world \<Rightarrow> jsval \<Rightarrow> jsval \<Rightarrow> jsstring \<Rightarrow> response" where
  "handleNormalResponse w text model requestId =
     \<lparr>status = 200,
      response_body = Json (JObj
        [(lit ''id'', JStr requestId),
         (lit ''object'', JStr (lit ''chat.completion'')),
         (lit ''created'', epoch_seconds w 0),
         (lit ''model'', model),
         (lit ''choices'', JArr [JObj
            [(lit ''index'', JNum (Finite 0)),
             (lit ''message'', JObj [(lit ''role'', JStr (lit ''assistant'')),
                                     (lit ''content'', text)]),
             (lit ''finish_reason'', JStr (lit ''stop''))]]),
         (lit ''usage'', JObj [(lit ''prompt_tokens'', JNum (Finite 0)),
                               (lit ''completion_tokens'', JNum (Finite 0)),
                               (lit ''total_tokens'', JNum (Finite 0))])])\<rparr>"

text \<open>The value a \<open>Json\<close> body carries.\<close>

definition json_of :: "response \<Rightarrow> jsval" where
  "json_of r = (case response_body r of Json v \<Rightarrow> v | _ \<Rightarrow> JUndefined)"

section \<open>Configuration and the model registry\<close>

record config =
  PROJECT_NAME :: jsstring
  PROJECT_VERSION :: jsstring
  API_MASTER_KEY :: jsstring
  UPSTREAM_ORIGIN :: jsstring
  MODEL_MAP :: "(jsstring \<times> jsstring) list"
  DEFAULT_MODEL :: jsstring
  STREAM_DELAY :: nat

text \<open>
  \<open>CONFIG k\<close> is the constant \<^verbatim>\<open>CONFIG\<close> when \<^verbatim>\<open>process.env.API_MASTER_KEY\<close> is \<open>k\<close>
  (\<open>None\<close>: not set); \<^verbatim>\<open>process.env.API_MASTER_KEY || "1"\<close> replaces an unset or empty
  variable by the sentinel. \<^verbatim>\<open>PORT\<close>, \<^verbatim>\<open>EXTENSION_ORIGIN\<close> and \<^verbatim>\<open>USER_AGENT\<close> feed
  only the listener and the constant request headers, and are left out.
\<close>

definition CONFIG :: "jsstring option \<Rightarrow> config" where
  "CONFIG k =
     \<lparr>PROJECT_NAME = lit ''teleprompt-2api-bun'',
      PROJECT_VERSION = lit ''1.1.0'',
      API_MASTER_KEY = (case k of None \<Rightarrow> lit ''1'' | Some v \<Rightarrow> if v \<noteq> [] then v else lit ''1''),
      UPSTREAM_ORIGIN = lit ''https://teleprompt-v2-backend-production.up.railway.app'',
      MODEL_MAP =
        [(lit ''teleprompt-reason'', lit ''/api/v1/prompt/optimize_reason_auth''),
         (lit ''teleprompt-standard'', lit ''/api/v1/prompt/optimize_auth''),
         (lit ''teleprompt-apps'', lit ''/api/v1/prompt/optimize_apps_auth'')],
      DEFAULT_MODEL = lit ''teleprompt-reason'',
      STREAM_DELAY = 10\<rparr>"

text \<open>
  \<^verbatim>\<open>CONFIG.MODEL_MAP\<close> is an object literal, so \<^verbatim>\<open>CONFIG.MODEL_MAP[key]\<close> finds the
  registered path of an own key and otherwise follows the prototype chain to
  \<^verbatim>\<open>Object.prototype\<close>, whose members are functions (and, for \<^verbatim>\<open>__proto__\<close>, the
  prototype object itself): all truthy, none a string.
\<close>

definition object_prototype_names :: "jsstring list" where
  "object_prototype_names =
     map lit [''constructor'', ''hasOwnProperty'', ''isPrototypeOf'',
              ''propertyIsEnumerable'', ''toLocaleString'', ''toString'', ''valueOf'',
              ''__defineGetter__'', ''__defineSetter__'', ''__lookupGetter__'',
              ''__lookupSetter__'', ''__proto__'']"

datatype property = Own jsstring | Inherited jsstring | Missing

definition lookup_model :: "config \<Rightarrow> jsstring \<Rightarrow> property" where
  "lookup_model cfg key =
     (case map_of (MODEL_MAP cfg) key of
        Some path \<Rightarrow> Own path
      | None \<Rightarrow> if key \<in> set object_prototype_names then Inherited key else Missing)"

fun truthy_property :: "property \<Rightarrow> bool" where
  "truthy_property (Own path) = (path \<noteq> [])"
| "truthy_property (Inherited name) = True"
| "truthy_property Missing = False"

text \<open>The text a property value contributes to a template literal.\<close>

fun property_to_string :: "world \<Rightarrow> property \<Rightarrow> jsstring" where
  "property_to_string w (Own path) = path"
| "property_to_string w (Inherited name) = builtin_to_string w name"
| "property_to_string w Missing = lit ''undefined''"

section \<open>Conversions\<close>

text \<open>
  \<^verbatim>\<open>Array.prototype.join\<close> with the separator \<^verbatim>\<open>","\<close>, over elements already
  converted; the first element that fails to convert raises.
\<close>

fun join_comma :: "(exn + jsstring) list \<Rightarrow> exn + jsstring" where
  "join_comma [] = Inr []"
| "join_comma [x] = x"
| "join_comma (x # xs) =
     (case x of
        Inl e \<Rightarrow> Inl e
      | Inr s \<Rightarrow> (case join_comma xs of Inl e \<Rightarrow> Inl e | Inr t \<Rightarrow> Inr (s @ lit '','' @ t)))"

text \<open>
  \<^verbatim>\<open>ToString\<close> (and so \<^verbatim>\<open>ToPropertyKey\<close>) of a parsed JSON value. An object converts
  through \<^verbatim>\<open>Object.prototype.toString\<close> unless it owns a \<^verbatim>\<open>toString\<close> property, which
  in parsed JSON is never callable: then no method yields a primitive.
\<close>

fun to_string :: "world \<Rightarrow> jsval \<Rightarrow> exn + jsstring" where
  "to_string w JUndefined = Inr (lit ''undefined'')"
| "to_string w JNull = Inr (lit ''null'')"
| "to_string w (JBool b) = Inr (if b then lit ''true'' else lit ''false'')"
| "to_string w (JNum n) = Inr (number_to_string w n)"
| "to_string w (JStr s) = Inr s"
| "to_string w (JArr xs) =
     join_comma (map (\<lambda>x. if x = JUndefined \<or> x = JNull then Inr [] else to_string w x) xs)"
| "to_string w (JObj kvs) =
     (if lit ''toString'' \<in> fst ` set kvs then Inl (TypeError Not_Primitive)
      else Inr (lit ''[object Object]''))"

text \<open>\<^verbatim>\<open>i < v\<close> for a loop counter \<open>i\<close>: \<open>v\<close> is converted to a number.\<close>

definition nat_less :: "nat \<Rightarrow> number \<Rightarrow> bool" where
  "nat_less i n = (case n of Finite r \<Rightarrow> of_nat i < r | PosInf \<Rightarrow> True | NegInf \<Rightarrow> False)"

fun js_less :: "world \<Rightarrow> nat \<Rightarrow> jsval \<Rightarrow> exn + bool" where
  "js_less w i JUndefined = Inr False"
| "js_less w i JNull = Inr False"
| "js_less w i (JBool b) = Inr (b \<and> i = 0)"
| "js_less w i (JNum n) = Inr (nat_less i n)"
| "js_less w i (JStr s) =
     Inr (case string_to_number w s of None \<Rightarrow> False | Some n \<Rightarrow> nat_less i n)"
| "js_less w i v =
     (case to_string w v of
        Inl e \<Rightarrow> Inl e
      | Inr s \<Rightarrow> Inr (case string_to_number w s of None \<Rightarrow> False | Some n \<Rightarrow> nat_less i n))"

text \<open>
  \<^verbatim>\<open>v.slice(i, j)\<close> with \<open>0 \<le> i \<le> j\<close>: strings and arrays have the method; on any
  other parsed JSON value \<^verbatim>\<open>v.slice\<close> is not a function.
\<close>

fun slice :: "jsval \<Rightarrow> nat \<Rightarrow> nat \<Rightarrow> exn + jsval" where
  "slice (JStr s) i j = Inr (JStr (take (j - i) (drop i s)))"
| "slice (JArr xs) i j = Inr (JArr (take (j - i) (drop i xs)))"
| "slice JUndefined i j = Inl (TypeError Nullish_Property)"
| "slice JNull i j = Inl (TypeError Nullish_Property)"
| "slice v i j = Inl (TypeError Not_Callable)"

section \<open>The streamed response\<close>

text \<open>The chunk built in the loop body, at the \<open>k\<close>-th reading of the clock.\<close>

definition chunk :: "world \<Rightarrow> nat \<Rightarrow> jsval \<Rightarrow> jsstring \<Rightarrow> jsval \<Rightarrow> jsval" where
  "chunk w k model requestId chunkContent =
     JObj [(lit ''id'', JStr requestId),
           (lit ''object'', JStr (lit ''chat.completion.chunk'')),
           (lit ''created'', epoch_seconds w k),
           (lit ''model'', model),
           (lit ''choices'', JArr [JObj
              [(lit ''index'', JNum (Finite 0)),
               (lit ''delta'', JObj [(lit ''content'', chunkContent)]),
               (lit ''finish_reason'', JNull)]])]"

definition endChunk :: "world \<Rightarrow> nat \<Rightarrow> jsval \<Rightarrow> jsstring \<Rightarrow> jsval" where
  "endChunk w k model requestId =
     JObj [(lit ''id'', JStr requestId),
           (lit ''object'', JStr (lit ''chat.completion.chunk'')),
           (lit ''created'', epoch_seconds w k),
           (lit ''model'', model),
           (lit ''choices'', JArr [JObj
              [(lit ''index'', JNum (Finite 0)),
               (lit ''delta'', JObj []),
               (lit ''finish_reason'', JStr (lit ''stop''))]])]"

definition DONE :: sse_record where
  "DONE = Raw (lit (''data: [DONE]'' @ [CHR 0x0A, CHR 0x0A]))"

text \<open>The number of elements of a string or an array (the measure of the loop).\<close>

fun items :: "jsval \<Rightarrow> nat" where
  "items (JStr s) = length s"
| "items (JArr xs) = length xs"
| "items v = 0"

text \<open>
  The loop \<^verbatim>\<open>for (let i = 0; i < text.length; i += chunkSize)\<close> of
  \<^verbatim>\<open>handleStreamResponse\<close>, with \<^verbatim>\<open>chunkSize = 2\<close>. \<open>out\<close> holds the records written
  so far; every iteration reads the clock once and writes once, so both have happened
  \<open>length out\<close> times. The result says whether the loop ended normally (\<open>False\<close>: an
  exception, from the engine or from a rejected write, reached the \<^verbatim>\<open>catch\<close>). The
  delay between two chunks is not modelled.
\<close>

function emit :: "world \<Rightarrow> jsval \<Rightarrow> jsval \<Rightarrow> jsstring \<Rightarrow> nat \<Rightarrow> sse_record list
    \<Rightarrow> bool \<times> sse_record list" where
  "emit w text model requestId i out =
     (case get_prop text (lit ''length'') of
        Inl e \<Rightarrow> (False, out)
      | Inr len \<Rightarrow>
         (case js_less w i len of
            Inl e \<Rightarrow> (False, out)
          | Inr continue \<Rightarrow>
             if \<not> continue then (True, out)
             else (case slice text i (i + 2) of
                     Inl e \<Rightarrow> (False, out)
                   | Inr chunkContent \<Rightarrow>
                      if write_ok w (length out)
                      then emit w text model requestId (i + 2)
                             (out @ [Data (chunk w (length out) model requestId chunkContent)])
                      else (False, out))))"
  by pat_completeness auto
termination
proof (relation "measure (\<lambda>(w, t, model, requestId, i, out). items t - i)")
  fix w t model requestId i out len continue chunkContent
  assume "get_prop t (lit ''length'') = Inr len" and "js_less w i len = Inr continue"
    and "\<not> \<not> continue" and "slice t i (i + 2) = Inr chunkContent"
  then have "i < items t"
    by (cases t) (auto simp: nat_less_def)
  then show "((w, t, model, requestId, i + 2,
               out @ [Data (chunk w (length out) model requestId chunkContent)]),
              (w, t, model, requestId, i, out))
             \<in> measure (\<lambda>(w, t, model, requestId, i, out). items t - i)"
    by simp
qed simp

declare emit.simps [simp del]

text \<open>
  What the client receives from \<^verbatim>\<open>handleStreamResponse\<close>: the records written before
  the writer is closed. After the loop the end chunk and the sentinel are written; a
  rejected write skips what follows it.
\<close>

definition handleStreamResponse :: "world \<Rightarrow> jsval \<Rightarrow> jsval \<Rightarrow> jsstring \<Rightarrow> response" where
  "handleStreamResponse w text model requestId =
     (case emit w text model requestId 0 [] of
        (False, out) \<Rightarrow> \<lparr>status = 200, response_body = Event_Stream out\<rparr>
      | (True, out) \<Rightarrow>
          if \<not> write_ok w (length out) then \<lparr>status = 200, response_body = Event_Stream out\<rparr>
          else if \<not> write_ok w (length out + 1)
          then \<lparr>status = 200,
                response_body = Event_Stream (out @ [Data (endChunk w (length out) model requestId)])\<rparr>
          else \<lparr>status = 200,
                response_body = Event_Stream
                  (out @ [Data (endChunk w (length out) model requestId), DONE])\<rparr>)"

text \<open>Observations on a stream.\<close>

fun delta_content :: "sse_record \<Rightarrow> jsval" where
  "delta_content (Data c) = select c [Key ''choices'', Index 0, Key ''delta'', Key ''content'']"
| "delta_content (Raw s) = JUndefined"

fun finish_reason :: "sse_record \<Rightarrow> jsval" where
  "finish_reason (Data c) = select c [Key ''choices'', Index 0, Key ''finish_reason'']"
| "finish_reason (Raw s) = JUndefined"

fun text_of :: "jsval \<Rightarrow> jsstring" where
  "text_of (JStr s) = s"
| "text_of v = []"

fun data_of :: "sse_record \<Rightarrow> jsval" where
  "data_of (Data c) = c"
| "data_of (Raw s) = JUndefined"

definition content_chunks :: "sse_record list \<Rightarrow> sse_record list" where
  "content_chunks recs = filter (\<lambda>r. delta_content r \<noteq> JUndefined) recs"

definition stream_of :: "response \<Rightarrow> sse_record list" where
  "stream_of r = (case response_body r of Event_Stream recs \<Rightarrow> recs | _ \<Rightarrow> [])"

text \<open>
  The partition the specification describes: consecutive slices of two elements in the
  original order, the last one shorter when the length is odd.
\<close>

fun pieces :: "'a list \<Rightarrow> 'a list list" where
  "pieces [] = []"
| "pieces [x] = [[x]]"
| "pieces (x # y # xs) = [x, y] # pieces xs"

section \<open>The request handlers\<close>

text \<open>
  An inbound request: its method, the path of its URL, what
  \<^verbatim>\<open>request.headers.get('Authorization')\<close> returns (\<open>None\<close>: \<^verbatim>\<open>null\<close>) and what
  \<^verbatim>\<open>await request.json()\<close> gives (\<open>Inl\<close>: the promise rejects, the body is not JSON).
\<close>

record request =
  request_method :: jsstring
  pathname :: jsstring
  authorization :: "jsstring option"
  request_json :: "exn + jsval"

text \<open>
  \<^verbatim>\<open>messages.reverse().find(m => m.role === 'user')\<close>. Only an array has the method
  \<^verbatim>\<open>reverse\<close>; \<^verbatim>\<open>find\<close> visits the elements in order and stops at the first match, and
  \<^verbatim>\<open>m.role\<close> throws on a \<^verbatim>\<open>null\<close> element it visits. (The reversal is in place; the
  program does not read \<^verbatim>\<open>body.messages\<close> again.)
\<close>

fun find_user :: "jsval list \<Rightarrow> exn + jsval" where
  "find_user [] = Inr JUndefined"
| "find_user (m # ms) =
     (case get_prop m (lit ''role'') of
        Inl e \<Rightarrow> Inl e
      | Inr role \<Rightarrow> if role = JStr (lit ''user'') then Inr m else find_user ms)"

fun reverse_find_user :: "jsval \<Rightarrow> exn + jsval" where
  "reverse_find_user (JArr ms) = find_user (rev ms)"
| "reverse_find_user JUndefined = Inl (TypeError Nullish_Property)"
| "reverse_find_user JNull = Inl (TypeError Nullish_Property)"
| "reverse_find_user v = Inl (TypeError Not_Callable)"

text \<open>
  \<^verbatim>\<open>CONFIG.MODEL_MAP[model] || CONFIG.MODEL_MAP[CONFIG.DEFAULT_MODEL]\<close>: the model is
  converted to a property key first.
\<close>

definition resolve_endpoint :: "config \<Rightarrow> world \<Rightarrow> jsval \<Rightarrow> exn + property" where
  "resolve_endpoint cfg w model =
     (case to_string w model of
        Inl e \<Rightarrow> Inl e
      | Inr key \<Rightarrow>
          Inr (if truthy_property (lookup_model cfg key) then lookup_model cfg key
               else lookup_model cfg (DEFAULT_MODEL cfg)))"

text \<open>
  Lines 143 to 178 of \<^verbatim>\<open>handleChatCompletions\<close>: the upstream call and the checks on
  its response. The result is the completion text or the exception thrown, with the
  requests passed to \<^verbatim>\<open>fetch\<close>. Apart from \<^verbatim>\<open>email\<close> the request headers are
  constants and are left out. The payload is the object given to \<^verbatim>\<open>JSON.stringify\<close>,
  which drops a \<^verbatim>\<open>text\<close> that is \<^verbatim>\<open>undefined\<close>.
\<close>

definition call_upstream ::
  "config \<Rightarrow> world \<Rightarrow> property \<Rightarrow> jsval \<Rightarrow> (exn + jsval) \<times> upstream_request list" where
  "call_upstream cfg w endpoint prompt =
     (let randomEmail = randomUUID w 1 @ lit ''@anonymous.user'';
          upstreamPayload = JObj [(lit ''text'', prompt)];
          sent = \<lparr>url = UPSTREAM_ORIGIN cfg @ property_to_string w endpoint,
                  payload = upstreamPayload, email = randomEmail\<rparr>
      in (case fetch w sent of
            Inl e \<Rightarrow> (Inl e, [sent])
          | Inr response \<Rightarrow>
              if \<not> ok response
              then (case upstream_text response of
                      Inl e \<Rightarrow> (Inl e, [sent])
                    | Inr errorText \<Rightarrow>
                        (Inl (Error (lit ''Upstream Error ('' @
                                number_to_string w (Finite (of_nat (upstream_status response))) @
                                lit ''): '' @ errorText)), [sent]))
              else (case upstream_json response of
                      Inl e \<Rightarrow> (Inl e, [sent])
                    | Inr data \<Rightarrow>
                       (case get_prop data (lit ''success'') of
                          Inl e \<Rightarrow> (Inl e, [sent])
                        | Inr success \<Rightarrow>
                           (case get_prop data (lit ''data'') of
                              Inl e \<Rightarrow> (Inl e, [sent])
                            | Inr resultText \<Rightarrow>
                                if \<not> truthy success \<or> \<not> truthy resultText
                                then (Inl (Error (lit ''Upstream Business Error: '' @
                                             json_stringify w data)), [sent])
                                else (Inr resultText, [sent]))))))"

text \<open>
  Lines 131 to 141 of \<^verbatim>\<open>handleChatCompletions\<close>: the body is read, the last user
  message located, the model chosen and its endpoint resolved. The result is the
  exception thrown, the \<^verbatim>\<open>invalid_request\<close> response returned early, or the values
  the rest of the function uses: \<^verbatim>\<open>body\<close>, \<^verbatim>\<open>prompt\<close>, \<^verbatim>\<open>model\<close> and
  \<^verbatim>\<open>endpoint\<close>.
\<close>

definition translate ::
  "config \<Rightarrow> world \<Rightarrow> request \<Rightarrow> exn + (response + jsval \<times> jsval \<times> jsval \<times> property)" where
  "translate cfg w req =
     (case request_json req of
        Inl e \<Rightarrow> Inl e
      | Inr body \<Rightarrow>
         (case get_prop body (lit ''messages'') of
            Inl e \<Rightarrow> Inl e
          | Inr body_messages \<Rightarrow>
             (case reverse_find_user (js_or body_messages (JArr [])) of
                Inl e \<Rightarrow> Inl e
              | Inr lastMsg \<Rightarrow>
                  if \<not> truthy lastMsg
                  then Inr (Inl (createErrorResponse (lit ''User message not found (role: user)'')
                                   400 (lit ''invalid_request'')))
                  else
                   (case get_prop lastMsg (lit ''content'') of
                      Inl e \<Rightarrow> Inl e
                    | Inr prompt \<Rightarrow>
                       (case get_prop body (lit ''model'') of
                          Inl e \<Rightarrow> Inl e
                        | Inr body_model \<Rightarrow>
                           (let model = js_or body_model (JStr (DEFAULT_MODEL cfg)) in
                            case resolve_endpoint cfg w model of
                              Inl e \<Rightarrow> Inl e
                            | Inr endpoint \<Rightarrow> Inr (Inr (body, prompt, model, endpoint))))))))"

text \<open>The body of the \<^verbatim>\<open>try\<close> block of \<^verbatim>\<open>handleChatCompletions\<close>.\<close>

definition chat_completions_try ::
  "config \<Rightarrow> world \<Rightarrow> request \<Rightarrow> jsstring \<Rightarrow> (exn + response) \<times> upstream_request list" where
  "chat_completions_try cfg w req requestId =
     (case translate cfg w req of
        Inl e \<Rightarrow> (Inl e, [])
      | Inr (Inl early) \<Rightarrow> (Inr early, [])
      | Inr (Inr (body, prompt, model, endpoint)) \<Rightarrow>
         (case call_upstream cfg w endpoint prompt of
            (Inl e, sent) \<Rightarrow> (Inl e, sent)
          | (Inr resultText, sent) \<Rightarrow>
             (case get_prop body (lit ''stream'') of
                Inl e \<Rightarrow> (Inl e, sent)
              | Inr stream \<Rightarrow>
                  if truthy stream
                  then (Inr (handleStreamResponse w resultText model requestId), sent)
                  else (Inr (handleNormalResponse w resultText model requestId), sent))))"

text \<open>
  \<^verbatim>\<open>handleChatCompletions\<close>: whatever the \<^verbatim>\<open>try\<close> block throws is caught and becomes
  the \<^verbatim>\<open>generation_failed\<close> response.
\<close>

definition handleChatCompletions ::
  "config \<Rightarrow> world \<Rightarrow> request \<Rightarrow> jsstring \<Rightarrow> response \<times> upstream_request list" where
  "handleChatCompletions cfg w req requestId =
     (case chat_completions_try cfg w req requestId of
        (Inl e, sent) \<Rightarrow> (createErrorResponse (message w e) 500 (lit ''generation_failed''), sent)
      | (Inr resp, sent) \<Rightarrow> (resp, sent))"

definition handleModelsRequest :: "config \<Rightarrow> world \<Rightarrow> response" where
  "handleModelsRequest cfg w =
     \<lparr>status = 200,
      response_body = Json (JObj
        [(lit ''object'', JStr (lit ''list'')),
         (lit ''data'', JArr (map (\<lambda>(k, modelId).
            JObj [(lit ''id'', JStr modelId),
                  (lit ''object'', JStr (lit ''model'')),
                  (lit ''created'', epoch_seconds w k),
                  (lit ''owned_by'', JStr (lit ''teleprompt-bun''))])
            (enumerate 0 (map fst (MODEL_MAP cfg)))))])\<rparr>"

definition handleCorsPreflight :: response where
  "handleCorsPreflight = \<lparr>status = 204, response_body = No_Body\<rparr>"

text \<open>\<^verbatim>\<open>s.startsWith(p)\<close>.\<close>

definition startsWith :: "jsstring \<Rightarrow> jsstring \<Rightarrow> bool" where
  "startsWith s p = (take (length p) s = p)"

text \<open>Lines 96 to 105 of \<^verbatim>\<open>handleApi\<close>: the dispatch on the path.\<close>

definition dispatch :: "config \<Rightarrow> world \<Rightarrow> request \<Rightarrow> response \<times> upstream_request list" where
  "dispatch cfg w req =
     (let requestId = lit ''req-'' @ randomUUID w 0
      in if pathname req = lit ''/v1/models'' then (handleModelsRequest cfg w, [])
         else if pathname req = lit ''/v1/chat/completions''
         then handleChatCompletions cfg w req requestId
         else (createErrorResponse (lit ''Method not allowed for: '' @ pathname req)
                 404 (lit ''not_found''), []))"

text \<open>
  \<^verbatim>\<open>handleApi\<close>: the bearer check, then the dispatch. \<^verbatim>\<open>!authHeader\<close> holds for
  \<^verbatim>\<open>null\<close> and for the empty string; \<^verbatim>\<open>authHeader.substring(7)\<close> drops the seven code
  units of the prefix \<^verbatim>\<open>Bearer\<close> with its space.
\<close>

definition handleApi :: "config \<Rightarrow> world \<Rightarrow> request \<Rightarrow> response \<times> upstream_request list" where
  "handleApi cfg w req =
     (let authHeader = authorization req;
          apiKey = API_MASTER_KEY cfg
      in if apiKey \<noteq> [] \<and> apiKey \<noteq> lit ''1''
         then (case authHeader of
                 None \<Rightarrow>
                   (createErrorResponse (lit ''Missing or invalid Authorization header.'')
                      401 (lit ''unauthorized''), [])
               | Some h \<Rightarrow>
                   if h = [] \<or> \<not> startsWith h (lit ''Bearer '')
                   then (createErrorResponse (lit ''Missing or invalid Authorization header.'')
                           401 (lit ''unauthorized''), [])
                   else if drop 7 h \<noteq> apiKey
                   then (createErrorResponse (lit ''Invalid API Key.'')
                           403 (lit ''invalid_api_key''), [])
                   else dispatch cfg w req)
         else dispatch cfg w req)"

text \<open>The \<^verbatim>\<open>fetch\<close> handler given to \<^verbatim>\<open>Bun.serve\<close>.\<close>

definition serve :: "config \<Rightarrow> world \<Rightarrow> request \<Rightarrow> response \<times> upstream_request list" where
  "serve cfg w req =
     (if request_method req = lit ''OPTIONS'' then (handleCorsPreflight, [])
      else if pathname req = lit ''/''
      then (\<lparr>status = 200,
             response_body = Json (JObj [(lit ''status'', JStr (lit ''alive'')),
                                (lit ''service'', JStr (PROJECT_NAME cfg)),
                                (lit ''version'', JStr (PROJECT_VERSION cfg))])\<rparr>, [])
      else if startsWith (pathname req) (lit ''/v1/'') then handleApi cfg w req
      else (createErrorResponse (lit ''Path not found: '' @ pathname req)
              404 (lit ''not_found''), []))"

section \<open>A world for examples\<close>

text \<open>The decimal digits of a natural number, as \<^verbatim>\<open>Number.prototype.toString\<close> prints it.\<close>

function decimal :: "nat \<Rightarrow> string" where
  "decimal n =
     (if n < 10 then [''0123456789'' ! n]
      else decimal (n div 10) @ [''0123456789'' ! (n mod 10)])"
  by pat_completeness auto
termination
  by (relation "measure id") auto

text \<open>
  The examples fix the upstream service, the clock and the client. The random source is
  fixed arbitrarily, and so are the conversions of the runtime, except that natural
  numbers are printed in decimal.
\<close>

definition example_world ::
  "(upstream_request \<Rightarrow> exn + upstream_response) \<Rightarrow> (nat \<Rightarrow> int) \<Rightarrow> (nat \<Rightarrow> bool) \<Rightarrow> world" where
  "example_world upstream clock client =
     \<lparr>fetch = upstream,
      date_now = clock,
      randomUUID = (\<lambda>k. if k = 0 then lit ''3f2b8c1e-5a7d-4e0f-9b6a-1c2d3e4f5a6b''
                        else lit ''9d1c7a52-0b3e-4f68-8a2d-6e5f4c3b2a19''),
      write_ok = client,
      number_to_string =
        (\<lambda>n. case n of Finite r \<Rightarrow> lit (decimal (nat \<lfloor>r\<rfloor>))
                       | PosInf \<Rightarrow> lit ''Infinity'' | NegInf \<Rightarrow> lit ''-Infinity''),
      string_to_number = (\<lambda>s. None),
      builtin_to_string = (\<lambda>name. lit ''function () { [native code] }''),
      json_stringify = (\<lambda>v. lit ''{}''),
      type_error_message = (\<lambda>c. lit ''TypeError'')\<rparr>"

text \<open>A clock that starts at \<open>t0\<close> and has advanced by 10 ms at every further reading.\<close>

definition clock_from :: "int \<Rightarrow> nat \<Rightarrow> int" where
  "clock_from t0 k = t0 + 10 * int k"

text \<open>A client that reads the whole stream, and one that is gone after \<open>n\<close> records.\<close>

definition connected :: "nat \<Rightarrow> bool" where
  "connected k = True"

definition disconnects_after :: "nat \<Rightarrow> nat \<Rightarrow> bool" where
  "disconnects_after n k = (k < n)"

text \<open>
  An upstream that cannot be reached, one that answers a status with a body that is not
  JSON, and one that answers 200 with a JSON body.
\<close>

definition unreachable :: "upstream_request \<Rightarrow> exn + upstream_response" where
  "unreachable sent = Inl (Error (lit ''fetch failed''))"

definition failing :: "nat \<Rightarrow> jsstring \<Rightarrow> upstream_request \<Rightarrow> exn + upstream_response" where
  "failing st raw sent =
     Inr \<lparr>upstream_status = st, upstream_text = Inr raw,
          upstream_json = Inl (Error (lit ''JSON Parse error''))\<rparr>"

definition answering :: "jsval \<Rightarrow> upstream_request \<Rightarrow> exn + upstream_response" where
  "answering v sent =
     Inr \<lparr>upstream_status = 200, upstream_text = Inr [], upstream_json = Inr v\<rparr>"

text \<open>
  A request \<^verbatim>\<open>POST /v1/chat/completions\<close> with the parsed body \<open>body\<close>, one whose body
  is not JSON, and the user message of the specification's example.
\<close>

definition chat_request :: "jsval \<Rightarrow> request" where
  "chat_request body =
     \<lparr>request_method = lit ''POST'', pathname = lit ''/v1/chat/completions'',
      authorization = None, request_json = Inr body\<rparr>"

definition malformed_request :: request where
  "malformed_request =
     \<lparr>request_method = lit ''POST'', pathname = lit ''/v1/chat/completions'',
      authorization = None, request_json = Inl (Error (lit ''JSON Parse error''))\<rparr>"

definition hello :: jsval where
  "hello = JObj [(lit ''role'', JStr (lit ''user'')), (lit ''content'', JStr (lit ''Hello''))]"

section \<open>Facts about literals\<close>

lemma code_unit_inverse: "unat (code_unit c) = of_char c"
proof -
  have "(of_char c :: nat) < 256" by (rule nat_of_char_less_256)
  then have small: "(of_char c :: nat) < 65536" by linarith
  show ?thesis
    unfolding code_unit_def by (simp add: unat_of_nat take_bit_nat_eq_self small)
qed

lemma code_unit_eq_iff [simp]: "code_unit a = code_unit b \<longleftrightarrow> a = b"
proof
  assume "code_unit a = code_unit b"
  then have "unat (code_unit a) = unat (code_unit b)" by simp
  then show "a = b" by (simp add: code_unit_inverse)
qed simp

lemma lit_simps: "lit [] = []" "lit (c # cs) = code_unit c # lit cs"
  by (simp_all add: lit_def)

lemma lit_append: "lit a @ lit b = lit (a @ b)"
  by (simp add: lit_def)

lemma lit_eq_Nil_iff [simp]: "lit s = [] \<longleftrightarrow> s = []" "[] = lit s \<longleftrightarrow> s = []"
  by (auto simp: lit_def)

lemma lit_eq_iff [simp]: "lit a = lit b \<longleftrightarrow> a = b"
  by (simp add: lit_def inj_on_def inj_map_eq_map)

section \<open>The non-streaming response\<close>

lemma map_of_lit [simp]:
  "map_of ((lit a, v) # kvs) (lit b) = (if a = b then Some v else map_of kvs (lit b))"
  by auto

lemmas normal_response_simps =
  handleNormalResponse_def epoch_seconds_def json_of_def

text \<open>
  C7. For every text \<open>T\<close>, the empty string included, the non-streaming response built
  from \<open>T\<close> has \<^verbatim>\<open>choices[0].message.content\<close> equal to \<open>T\<close>, \<^verbatim>\<open>object\<close>
  \<^verbatim>\<open>"chat.completion"\<close>, exactly one choice, with index 0, role \<^verbatim>\<open>"assistant"\<close> and
  finish reason \<^verbatim>\<open>"stop"\<close>, and the three usage counters at zero.
\<close>

theorem normal_response_fields:
  "(let c = json_of (handleNormalResponse w T model requestId) in
      select c [Key ''choices'', Index 0, Key ''message'', Key ''content''] = T
    \<and> select c [Key ''object''] = JStr (lit ''chat.completion'')
    \<and> (\<exists>choice. select c [Key ''choices''] = JArr [choice])
    \<and> select c [Key ''choices'', Index 0, Key ''index''] = JNum (Finite 0)
    \<and> select c [Key ''choices'', Index 0, Key ''message'', Key ''role''] = JStr (lit ''assistant'')
    \<and> select c [Key ''choices'', Index 0, Key ''finish_reason''] = JStr (lit ''stop'')
    \<and> select c [Key ''usage'', Key ''prompt_tokens''] = JNum (Finite 0)
    \<and> select c [Key ''usage'', Key ''completion_tokens''] = JNum (Finite 0)
    \<and> select c [Key ''usage'', Key ''total_tokens''] = JNum (Finite 0))"
  by (simp add: normal_response_simps)

theorem normal_response_fields_witness:
  "select (json_of (handleNormalResponse (example_world unreachable (clock_from 1700000000123) connected)
      (JStr []) (JStr (lit ''teleprompt-reason'')) (lit ''req-1'')))
     [Key ''choices'', Index 0, Key ''message'', Key ''content''] = JStr []"
  using normal_response_fields
    [of "example_world unreachable (clock_from 1700000000123) connected" "JStr []"
        "JStr (lit ''teleprompt-reason'')" "lit ''req-1''"]
  by (simp add: Let_def)

text \<open>
  C6 as amended. Building the non-streaming completion always succeeds (it returns a
  200 response carrying the completion), and it is a function of its three arguments
  and of the second the clock shows: two invocations with the same text, model and
  request id produce identical completions exactly when both happen in the same epoch
  second.
\<close>

theorem normal_response_deterministic_up_to_clock:
  "status (handleNormalResponse w1 T model requestId) = 200
   \<and> (\<exists>c. response_body (handleNormalResponse w1 T model requestId) = Json c)
   \<and> ((handleNormalResponse w1 T model requestId = handleNormalResponse w2 T model requestId)
        = (date_now w1 0 div 1000 = date_now w2 0 div 1000))"
  by (simp add: normal_response_simps)

theorem normal_response_deterministic_up_to_clock_witness:
  "handleNormalResponse (example_world unreachable (clock_from 1700000000123) connected)
      (JStr (lit ''Hi there'')) (JStr (lit ''teleprompt-reason'')) (lit ''req-1'')
   = handleNormalResponse (example_world unreachable (clock_from 1700000000877) connected)
      (JStr (lit ''Hi there'')) (JStr (lit ''teleprompt-reason'')) (lit ''req-1'')"
  using normal_response_deterministic_up_to_clock
    [of "example_world unreachable (clock_from 1700000000123) connected" "JStr (lit ''Hi there'')"
        "JStr (lit ''teleprompt-reason'')" "lit ''req-1''"
        "example_world unreachable (clock_from 1700000000877) connected"]
  by (simp add: example_world_def clock_from_def)

text \<open>
  The claim as stated fails: the same text, model and request id give different
  completions one second apart.
\<close>

theorem normal_response_not_pure:
  "handleNormalResponse (example_world unreachable (clock_from 1700000000123) connected)
      (JStr (lit ''Hi there'')) (JStr (lit ''teleprompt-reason'')) (lit ''req-1'')
   \<noteq> handleNormalResponse (example_world unreachable (clock_from 1700000001123) connected)
      (JStr (lit ''Hi there'')) (JStr (lit ''teleprompt-reason'')) (lit ''req-1'')"
  by (simp add: normal_response_simps example_world_def clock_from_def)


section \<open>The streamed response: what is emitted\<close>

lemma pieces_unfold: "xs \<noteq> [] \<Longrightarrow> pieces xs = take 2 xs # pieces (drop 2 xs)"
  by (cases xs rule: pieces.cases) simp_all

lemma concat_pieces: "concat (pieces xs) = xs"
  by (induction xs rule: pieces.induct) simp_all

lemma length_pieces: "length (pieces xs) = (length xs + 1) div 2"
  by (induction xs rule: pieces.induct) simp_all

lemma pieces_nonempty: "p \<in> set (pieces xs) \<Longrightarrow> p \<noteq> [] \<and> length p \<le> 2"
  by (induction xs rule: pieces.induct) auto

lemma chunk_fields [simp]:
  "select (chunk w k m r c) [Key ''choices'', Index 0, Key ''delta'', Key ''content''] = c"
  "select (chunk w k m r c) [Key ''choices'', Index 0, Key ''finish_reason''] = JNull"
  "select (chunk w k m r c) [Key ''id''] = JStr r"
  "select (chunk w k m r c) [Key ''model''] = m"
  "select (chunk w k m r c) [Key ''created''] = epoch_seconds w k"
  by (simp_all add: chunk_def)

lemma endChunk_fields [simp]:
  "select (endChunk w k m r) [Key ''choices'', Index 0, Key ''delta''] = JObj []"
  "select (endChunk w k m r) [Key ''choices'', Index 0, Key ''delta'', Key ''content''] = JUndefined"
  "select (endChunk w k m r) [Key ''choices'', Index 0, Key ''finish_reason''] = JStr (lit ''stop'')"
  "select (endChunk w k m r) [Key ''id''] = JStr r"
  "select (endChunk w k m r) [Key ''model''] = m"
  "select (endChunk w k m r) [Key ''created''] = epoch_seconds w k"
  by (simp_all add: endChunk_def)

lemma emit_string:
  "(\<forall>k. k < length out + length (pieces (drop i s)) \<longrightarrow> write_ok w k) \<Longrightarrow>
   \<exists>new. emit w (JStr s) m r i out = (True, out @ new)
      \<and> map delta_content new = map JStr (pieces (drop i s))
      \<and> (\<forall>x \<in> set new. finish_reason x = JNull)"
proof (induction "length s - i" arbitrary: i out rule: less_induct)
  case less
  show ?case
  proof (cases "i < length s")
    case False
    then show ?thesis
      by (subst emit.simps) (simp add: nat_less_def)
  next
    case True
    then have ne: "drop i s \<noteq> []" by simp
    let ?c = "JStr (take 2 (drop i s))"
    let ?out = "out @ [Data (chunk w (length out) m r ?c)]"
    have unf: "pieces (drop i s) = take 2 (drop i s) # pieces (drop (i + 2) s)"
      using pieces_unfold [OF ne] by (simp add: add.commute)
    have ok0: "write_ok w (length out)"
      using less.prems unf by simp
    have "\<forall>k. k < length ?out + length (pieces (drop (i + 2) s)) \<longrightarrow> write_ok w k"
      using less.prems unf by simp
    moreover have "length s - (i + 2) < length s - i" using True by simp
    ultimately obtain new where new:
      "emit w (JStr s) m r (i + 2) ?out = (True, ?out @ new)"
      "map delta_content new = map JStr (pieces (drop (i + 2) s))"
      "\<forall>x \<in> set new. finish_reason x = JNull"
      using less.hyps [of "i + 2" ?out] by blast
    have step: "emit w (JStr s) m r i out = emit w (JStr s) m r (i + 2) ?out"
      using True ok0 by (subst emit.simps) (simp add: nat_less_def)
    show ?thesis
      apply (rule exI [of _ "Data (chunk w (length out) m r ?c) # new"])
      using new step unf by simp
  qed
qed

lemma emit_records:
  "emit w t m r i out = (b, out') \<Longrightarrow>
   \<exists>new. out' = out @ new \<and> (\<forall>j < length new. \<exists>c. new ! j = Data (chunk w (length out + j) m r c))"
proof (induction w t m r i out rule: emit.induct)
  case (1 w t m r i out)
  show ?case
  proof (cases "\<exists>len c. get_prop t (lit ''length'') = Inr len \<and> js_less w i len = Inr True
      \<and> slice t i (i + 2) = Inr c \<and> write_ok w (length out)")
    case False
    then have "out' = out"
      using "1.prems" by (subst (asm) emit.simps) (auto split: sum.splits if_splits)
    then show ?thesis by simp
  next
    case True
    then obtain len c where c: "get_prop t (lit ''length'') = Inr len" "js_less w i len = Inr True"
      "slice t i (i + 2) = Inr c" "write_ok w (length out)" by blast
    let ?out = "out @ [Data (chunk w (length out) m r c)]"
    have "emit w t m r (i + 2) ?out = (b, out')"
      using "1.prems" c by (subst (asm) emit.simps) simp
    from "1.IH" [OF c(1) c(2) _ c(3) c(4) this]
    obtain new where new: "out' = ?out @ new"
      "\<forall>j < length new. \<exists>c. new ! j = Data (chunk w (length ?out + j) m r c)" by auto
    show ?thesis
    proof (rule exI [of _ "Data (chunk w (length out) m r c) # new"], intro conjI allI impI)
      show "out' = out @ Data (chunk w (length out) m r c) # new" using new(1) by simp
    next
      fix j assume "j < length (Data (chunk w (length out) m r c) # new)"
      then show "\<exists>ca. (Data (chunk w (length out) m r c) # new) ! j = Data (chunk w (length out + j) m r ca)"
        using new(2) by (cases j) auto
    qed
  qed
qed


lemma content_chunks_append [simp]:
  "content_chunks (xs @ ys) = content_chunks xs @ content_chunks ys"
  by (simp add: content_chunks_def)

lemma content_chunks_all:
  "map delta_content new = map JStr ps \<Longrightarrow> content_chunks new = new"
proof -
  assume a: "map delta_content new = map JStr ps"
  have "\<forall>x \<in> set new. delta_content x \<noteq> JUndefined"
  proof
    fix x assume "x \<in> set new"
    then have "delta_content x \<in> set (map delta_content new)" by simp
    then have "delta_content x \<in> set (map JStr ps)" using a by simp
    then show "delta_content x \<noteq> JUndefined" by auto
  qed
  then show ?thesis by (simp add: content_chunks_def)
qed

lemma text_of_contents:
  "map delta_content new = map JStr ps \<Longrightarrow> concat (map (text_of \<circ> delta_content) new) = concat ps"
proof -
  assume a: "map delta_content new = map JStr ps"
  have "map (text_of \<circ> delta_content) new = map text_of (map delta_content new)" by simp
  also have "\<dots> = map text_of (map JStr ps)" using a by simp
  also have "\<dots> = ps" by (simp add: comp_def)
  finally show ?thesis by simp
qed

text \<open>
  C1 as amended. For every upstream text \<open>T\<close> of length \<open>L\<close>, provided no write is
  rejected (the client stays connected for the \<open>ceil(L/2) + 2\<close> writes), the stream
  consists of \<open>ceil(L/2)\<close> content-bearing chunks with \<^verbatim>\<open>finish_reason\<close> \<^verbatim>\<open>null\<close>,
  whose \<^verbatim>\<open>delta.content\<close> values are the consecutive two-unit slices of \<open>T\<close> and
  concatenate to \<open>T\<close>, then exactly one chunk with empty \<^verbatim>\<open>delta\<close> and
  \<^verbatim>\<open>finish_reason\<close> \<^verbatim>\<open>"stop"\<close>, then the sentinel record.
\<close>

theorem stream_round_trip:
  assumes writes: "\<forall>k. k \<le> (length T + 1) div 2 + 1 \<longrightarrow> write_ok w k"
  shows "(let recs = stream_of (handleStreamResponse w (JStr T) model requestId);
              chunks = content_chunks recs
          in map delta_content chunks = map JStr (pieces T)
           \<and> concat (map (text_of \<circ> delta_content) chunks) = T
           \<and> length chunks = (length T + 1) div 2
           \<and> (\<forall>c \<in> set chunks. finish_reason c = JNull)
           \<and> (\<exists>e. recs = chunks @ [Data e, Raw (lit (''data: [DONE]'' @ [CHR 0x0A, CHR 0x0A]))]
                 \<and> select e [Key ''choices'', Index 0, Key ''delta''] = JObj []
                 \<and> finish_reason (Data e) = JStr (lit ''stop''))
           \<and> length (filter (\<lambda>r. finish_reason r = JStr (lit ''stop'')) recs) = 1)"
proof -
  have "\<forall>k. k < length ([] :: sse_record list) + length (pieces (drop 0 T)) \<longrightarrow> write_ok w k"
    using writes by (simp add: length_pieces)
  from emit_string [where m = model and r = requestId, OF this] obtain new where new:
    "emit w (JStr T) model requestId 0 [] = (True, new)"
    "map delta_content new = map JStr (pieces T)"
    "\<forall>x \<in> set new. finish_reason x = JNull"
    by auto
  have len: "length new = (length T + 1) div 2"
    using new(2) length_pieces [of T] by (metis length_map)
  let ?e = "endChunk w (length new) model requestId"
  have recs: "stream_of (handleStreamResponse w (JStr T) model requestId) = new @ [Data ?e, DONE]"
    using new(1) writes len by (simp add: handleStreamResponse_def stream_of_def)
  have chunks: "content_chunks (new @ [Data ?e, DONE]) = new"
    using content_chunks_all [OF new(2)] by (simp add: content_chunks_def DONE_def)
  have stops: "filter (\<lambda>r. finish_reason r = JStr (lit ''stop'')) (new @ [Data ?e, DONE]) = [Data ?e]"
    using new(3) by (simp add: DONE_def)
  show ?thesis
    unfolding Let_def recs chunks
    using new(2) new(3) len stops text_of_contents [OF new(2)]
    by (simp add: concat_pieces DONE_def)
qed

text \<open>
  The shape of every stream: the chunks of the loop, then the end chunk unless a write
  was rejected before, then the sentinel unless its own write is rejected.
\<close>

lemma stream_shape:
  obtains out where
    "\<forall>j < length out. \<exists>c. out ! j = Data (chunk w j model requestId c)"
    "stream_of (handleStreamResponse w text model requestId) = out
      \<or> stream_of (handleStreamResponse w text model requestId)
            = out @ [Data (endChunk w (length out) model requestId)]
      \<or> stream_of (handleStreamResponse w text model requestId)
            = out @ [Data (endChunk w (length out) model requestId), DONE]"
proof -
  obtain b out where e: "emit w text model requestId 0 [] = (b, out)" by force
  from emit_records [OF e] have
    "\<forall>j < length out. \<exists>c. out ! j = Data (chunk w j model requestId c)" by simp
  moreover have "stream_of (handleStreamResponse w text model requestId) = out
      \<or> stream_of (handleStreamResponse w text model requestId)
            = out @ [Data (endChunk w (length out) model requestId)]
      \<or> stream_of (handleStreamResponse w text model requestId)
            = out @ [Data (endChunk w (length out) model requestId), DONE]"
    using e
    by (cases b; cases "write_ok w (length out)"; cases "write_ok w (length out + 1)")
       (simp_all add: handleStreamResponse_def stream_of_def)
  ultimately show ?thesis using that by blast
qed

lemma stream_model:
  assumes "x \<in> set (stream_of (handleStreamResponse w text model requestId))"
  shows "x = DONE \<or> select (data_of x) [Key ''model''] = model"
proof -
  obtain out where out: "\<forall>j < length out. \<exists>c. out ! j = Data (chunk w j model requestId c)"
    and shape: "stream_of (handleStreamResponse w text model requestId) = out
      \<or> stream_of (handleStreamResponse w text model requestId)
            = out @ [Data (endChunk w (length out) model requestId)]
      \<or> stream_of (handleStreamResponse w text model requestId)
            = out @ [Data (endChunk w (length out) model requestId), DONE]"
    by (rule stream_shape)
  have "x \<in> set out \<or> x = Data (endChunk w (length out) model requestId) \<or> x = DONE"
    using assms shape by auto
  moreover have "select (data_of x) [Key ''model''] = model" if "x \<in> set out"
  proof -
    from that obtain j where "j < length out" "out ! j = x" by (auto simp: in_set_conv_nth)
    with out obtain c where "x = Data (chunk w j model requestId c)" by auto
    then show ?thesis by simp
  qed
  ultimately show ?thesis by auto
qed

lemma stream_records:
  assumes "j < length (stream_of (handleStreamResponse w text model requestId))"
  shows "stream_of (handleStreamResponse w text model requestId) ! j = DONE \<or>
         (\<exists>c. stream_of (handleStreamResponse w text model requestId) ! j = Data c
            \<and> select c [Key ''id''] = JStr requestId
            \<and> select c [Key ''model''] = model
            \<and> select c [Key ''created''] = epoch_seconds w j)"
proof -
  obtain out where out: "\<forall>j < length out. \<exists>c. out ! j = Data (chunk w j model requestId c)"
    and shape: "stream_of (handleStreamResponse w text model requestId) = out
      \<or> stream_of (handleStreamResponse w text model requestId)
            = out @ [Data (endChunk w (length out) model requestId)]
      \<or> stream_of (handleStreamResponse w text model requestId)
            = out @ [Data (endChunk w (length out) model requestId), DONE]"
    by (rule stream_shape)
  have good: "\<exists>c. out ! j = Data c
            \<and> select c [Key ''id''] = JStr requestId
            \<and> select c [Key ''model''] = model
            \<and> select c [Key ''created''] = epoch_seconds w j" if "j < length out"
    using out that by fastforce
  from shape consider (a) "stream_of (handleStreamResponse w text model requestId) = out"
    | (b) "stream_of (handleStreamResponse w text model requestId)
            = out @ [Data (endChunk w (length out) model requestId)]"
    | (c) "stream_of (handleStreamResponse w text model requestId)
            = out @ [Data (endChunk w (length out) model requestId), DONE]"
    by blast
  then show ?thesis
  proof cases
    case a
    then show ?thesis using good assms by simp
  next
    case b
    then have "j < length out \<or> j = length out" using assms by auto
    then show ?thesis unfolding b using good by (auto simp: nth_append)
  next
    case c
    then have "j < length out \<or> j = length out \<or> j = Suc (length out)" using assms by auto
    then show ?thesis unfolding c using good by (auto simp: nth_append)
  qed
qed

text \<open>
  C2 as amended. In every streamed response, whatever the text and however early the
  client disconnects, every emitted chunk (the terminal one included) carries the
  request id and the model given to the response; its \<^verbatim>\<open>created\<close> is the epoch second
  of the clock reading made when that chunk is built, the \<open>j\<close>-th reading for the
  \<open>j\<close>-th record. So two chunks carry the same \<^verbatim>\<open>created\<close> exactly when their two
  readings fall in the same second.
\<close>

theorem stream_chunk_identity:
  "(let recs = stream_of (handleStreamResponse w text model requestId)
    in (\<forall>j < length recs. recs ! j = DONE \<or>
         (\<exists>c. recs ! j = Data c
            \<and> select c [Key ''id''] = JStr requestId
            \<and> select c [Key ''model''] = model
            \<and> select c [Key ''created''] = epoch_seconds w j))
     \<and> (\<forall>j k. j < length recs \<and> k < length recs \<and> recs ! j \<noteq> DONE \<and> recs ! k \<noteq> DONE
          \<longrightarrow> (select (data_of (recs ! j)) [Key ''created'']
                 = select (data_of (recs ! k)) [Key ''created''])
              = (date_now w j div 1000 = date_now w k div 1000)))"
proof -
  let ?recs = "stream_of (handleStreamResponse w text model requestId)"
  have created: "select (data_of (?recs ! j)) [Key ''created''] = epoch_seconds w j"
    if "j < length ?recs" "?recs ! j \<noteq> DONE" for j
    using stream_records [OF that(1)] that(2) by auto
  have "(select (data_of (?recs ! j)) [Key ''created'']
          = select (data_of (?recs ! k)) [Key ''created''])
        = (date_now w j div 1000 = date_now w k div 1000)"
    if "j < length ?recs" "k < length ?recs" "?recs ! j \<noteq> DONE" "?recs ! k \<noteq> DONE" for j k
    using created [OF that(1,3)] created [OF that(2,4)] by (simp add: epoch_seconds_def)
  then show ?thesis
    unfolding Let_def using stream_records [of _ w "text" model requestId] by blast
qed

lemmas stream_eval =
  handleStreamResponse_def stream_of_def emit.simps example_world_def nat_less_def lit_simps
  clock_from_def connected_def disconnects_after_def content_chunks_def chunk_def endChunk_def
  epoch_seconds_def DONE_def

theorem stream_round_trip_witness:
  "map delta_content (content_chunks (stream_of (handleStreamResponse
       (example_world unreachable (clock_from 1700000000123) connected)
       (JStr (lit ''Hi there'')) (JStr (lit ''teleprompt-reason'')) (lit ''req-1''))))
     = [JStr (lit ''Hi''), JStr (lit '' t''), JStr (lit ''he''), JStr (lit ''re'')]
   \<and> length (stream_of (handleStreamResponse
       (example_world unreachable (clock_from 1700000000123) connected)
       (JStr (lit ''Hi there'')) (JStr (lit ''teleprompt-reason'')) (lit ''req-1''))) = 6"
  using stream_round_trip
    [of "lit ''Hi there''" "example_world unreachable (clock_from 1700000000123) connected"
        "JStr (lit ''teleprompt-reason'')" "lit ''req-1''"]
  by (auto simp add: Let_def example_world_def connected_def lit_simps)

text \<open>
  The claim as stated fails when the client disconnects: of the text \<^verbatim>\<open>abcd\<close> only the
  first chunk is emitted, and neither the terminal chunk nor the sentinel follows.
\<close>

theorem stream_cut_short:
  "concat (map (text_of \<circ> delta_content) (content_chunks (stream_of (handleStreamResponse
       (example_world unreachable (clock_from 1700000000123) (disconnects_after 1))
       (JStr (lit ''abcd'')) (JStr (lit ''teleprompt-reason'')) (lit ''req-1'')))))
     \<noteq> lit ''abcd''
   \<and> length (content_chunks (stream_of (handleStreamResponse
       (example_world unreachable (clock_from 1700000000123) (disconnects_after 1))
       (JStr (lit ''abcd'')) (JStr (lit ''teleprompt-reason'')) (lit ''req-1'')))) \<noteq> 2
   \<and> DONE \<notin> set (stream_of (handleStreamResponse
       (example_world unreachable (clock_from 1700000000123) (disconnects_after 1))
       (JStr (lit ''abcd'')) (JStr (lit ''teleprompt-reason'')) (lit ''req-1'')))"
  by (simp add: stream_eval)

theorem stream_chunk_identity_witness:
  "select (data_of (stream_of (handleStreamResponse
       (example_world unreachable (clock_from 1700000000999) connected)
       (JStr (lit ''ab'')) (JStr (lit ''teleprompt-reason'')) (lit ''req-1'')) ! 1))
     [Key ''id''] = JStr (lit ''req-1'')
   \<and> select (data_of (stream_of (handleStreamResponse
       (example_world unreachable (clock_from 1700000000999) connected)
       (JStr (lit ''ab'')) (JStr (lit ''teleprompt-reason'')) (lit ''req-1'')) ! 1))
     [Key ''created''] = JNum (Finite 1700000001)
   \<and> select (data_of (stream_of (handleStreamResponse
       (example_world unreachable (clock_from 1700000000123) connected)
       (JStr (lit ''ab'')) (JStr (lit ''teleprompt-reason'')) (lit ''req-1'')) ! 0))
     [Key ''created'']
     = select (data_of (stream_of (handleStreamResponse
       (example_world unreachable (clock_from 1700000000123) connected)
       (JStr (lit ''ab'')) (JStr (lit ''teleprompt-reason'')) (lit ''req-1'')) ! 1))
     [Key ''created'']"
  using stream_chunk_identity
    [of "example_world unreachable (clock_from 1700000000999) connected"
        "JStr (lit ''ab'')" "JStr (lit ''teleprompt-reason'')" "lit ''req-1''"]
    stream_chunk_identity
    [of "example_world unreachable (clock_from 1700000000123) connected"
        "JStr (lit ''ab'')" "JStr (lit ''teleprompt-reason'')" "lit ''req-1''"]
  by (simp add: stream_eval)

text \<open>
  The claim as stated fails: the chunk carrying \<^verbatim>\<open>ab\<close> is built at 1700000000999 ms
  and the terminal chunk 10 ms later, in the next second.
\<close>

theorem stream_created_differs:
  "select (data_of (stream_of (handleStreamResponse
       (example_world unreachable (clock_from 1700000000999) connected)
       (JStr (lit ''ab'')) (JStr (lit ''teleprompt-reason'')) (lit ''req-1'')) ! 0))
     [Key ''created'']
   \<noteq> select (data_of (stream_of (handleStreamResponse
       (example_world unreachable (clock_from 1700000000999) connected)
       (JStr (lit ''ab'')) (JStr (lit ''teleprompt-reason'')) (lit ''req-1'')) ! 1))
     [Key ''created'']"
  by (simp add: stream_eval)


section \<open>The chat handler\<close>

lemma status_createErrorResponse [simp]: "status (createErrorResponse msg st code) = st"
  by (simp add: createErrorResponse_def)

lemma error_fields [simp]:
  "select (json_of (createErrorResponse msg st code)) [Key ''error'', Key ''code''] = JStr code"
  "select (json_of (createErrorResponse msg st code)) [Key ''error'', Key ''message''] = JStr msg"
  by (simp_all add: createErrorResponse_def json_of_def)

lemma status_handleNormalResponse [simp]: "status (handleNormalResponse w t m r) = 200"
  by (simp add: handleNormalResponse_def)

lemma status_handleStreamResponse [simp]: "status (handleStreamResponse w t m r) = 200"
  by (simp add: handleStreamResponse_def split: prod.splits bool.splits)

lemma translate_elim:
  assumes "translate cfg w req = Inr (Inr (body, prompt, model, endpoint))"
  obtains body_messages lastMsg body_model where
    "request_json req = Inr body"
    "get_prop body (lit ''messages'') = Inr body_messages"
    "reverse_find_user (js_or body_messages (JArr [])) = Inr lastMsg"
    "truthy lastMsg"
    "get_prop lastMsg (lit ''content'') = Inr prompt"
    "get_prop body (lit ''model'') = Inr body_model"
    "model = js_or body_model (JStr (DEFAULT_MODEL cfg))"
    "resolve_endpoint cfg w model = Inr endpoint"
  using assms by (auto simp: translate_def Let_def split: sum.splits if_splits)

lemma translate_early:
  "translate cfg w req = Inr (Inl resp) \<Longrightarrow>
   resp = createErrorResponse (lit ''User message not found (role: user)'') 400
            (lit ''invalid_request'')"
  by (auto simp: translate_def Let_def split: sum.splits if_splits)

lemma handle_accepted:
  assumes "handleChatCompletions cfg w req rid = (resp, sent)" and "status resp = 200"
  obtains body prompt model endpoint resultText stream where
    "translate cfg w req = Inr (Inr (body, prompt, model, endpoint))"
    "call_upstream cfg w endpoint prompt = (Inr resultText, sent)"
    "get_prop body (lit ''stream'') = Inr stream"
    "resp = (if truthy stream then handleStreamResponse w resultText model rid
             else handleNormalResponse w resultText model rid)"
  using assms
  by (auto simp: handleChatCompletions_def chat_completions_try_def
           dest!: translate_early split: sum.splits prod.splits if_splits)

lemma sent_call_upstream:
  "snd (call_upstream cfg w endpoint prompt) =
     [\<lparr>url = UPSTREAM_ORIGIN cfg @ property_to_string w endpoint,
       payload = JObj [(lit ''text'', prompt)],
       email = randomUUID w 1 @ lit ''@anonymous.user''\<rparr>]"
  by (simp add: call_upstream_def Let_def split: sum.splits)

lemma sent_handleChatCompletions:
  "snd (handleChatCompletions cfg w req rid) =
     (case translate cfg w req of
        Inr (Inr (body, prompt, model, endpoint)) \<Rightarrow> snd (call_upstream cfg w endpoint prompt)
      | _ \<Rightarrow> [])"
  by (auto simp: handleChatCompletions_def chat_completions_try_def
           split: sum.splits prod.splits)

lemmas chat_eval =
  handleChatCompletions_def chat_completions_try_def translate_def call_upstream_def
  resolve_endpoint_def lookup_model_def CONFIG_def js_or_def ok_def message_def Let_def
  example_world_def answering_def unreachable_def chat_request_def malformed_request_def
  hello_def object_prototype_names_def

text \<open>
  C3 as amended. For a request that reaches the upstream call and an upstream response
  whose body can be read and, parsed, is not \<^verbatim>\<open>null\<close>: the handler answers
  \<^verbatim>\<open>generation_failed\<close>/500 if and only if the status is outside 200..299 (the message
  is \<^verbatim>\<open>Upstream Error (status): raw body\<close>) or \<^verbatim>\<open>success\<close> or \<^verbatim>\<open>data\<close> is falsy:
  absent, \<^verbatim>\<open>null\<close>, \<^verbatim>\<open>false\<close>, zero or the empty string (the message is
  \<^verbatim>\<open>Upstream Business Error:\<close> and the serialized envelope). Otherwise the response is
  accepted and \<^verbatim>\<open>data\<close> is the completion text of the streamed or plain response.
\<close>

theorem upstream_outcome:
  assumes "translate cfg w req = Inr (Inr (body, prompt, model, endpoint))"
      and "get_prop body (lit ''stream'') = Inr stream"
      and "fetch w \<lparr>url = UPSTREAM_ORIGIN cfg @ property_to_string w endpoint,
                     payload = JObj [(lit ''text'', prompt)],
                     email = randomUUID w 1 @ lit ''@anonymous.user''\<rparr> = Inr r"
      and "\<not> ok r \<longrightarrow> upstream_text r = Inr raw"
      and "ok r \<longrightarrow> upstream_json r = Inr data
             \<and> get_prop data (lit ''success'') = Inr success
             \<and> get_prop data (lit ''data'') = Inr resultText"
  shows "fst (handleChatCompletions cfg w req requestId) =
      (if \<not> ok r
       then createErrorResponse
              (lit ''Upstream Error ('' @ number_to_string w (Finite (of_nat (upstream_status r)))
                 @ lit ''): '' @ raw)
              500 (lit ''generation_failed'')
       else if \<not> truthy success \<or> \<not> truthy resultText
       then createErrorResponse (lit ''Upstream Business Error: '' @ json_stringify w data)
              500 (lit ''generation_failed'')
       else if truthy stream then handleStreamResponse w resultText model requestId
       else handleNormalResponse w resultText model requestId)
    \<and> ((status (fst (handleChatCompletions cfg w req requestId)) = 500)
         = (\<not> ok r \<or> \<not> truthy success \<or> \<not> truthy resultText))"
proof -
  have call: "call_upstream cfg w endpoint prompt =
      (if \<not> ok r
       then Inl (Error (lit ''Upstream Error ('' @
               number_to_string w (Finite (of_nat (upstream_status r))) @ lit ''): '' @ raw))
       else if \<not> truthy success \<or> \<not> truthy resultText
       then Inl (Error (lit ''Upstream Business Error: '' @ json_stringify w data))
       else Inr resultText,
       [\<lparr>url = UPSTREAM_ORIGIN cfg @ property_to_string w endpoint,
         payload = JObj [(lit ''text'', prompt)],
         email = randomUUID w 1 @ lit ''@anonymous.user''\<rparr>])"
  proof (cases "ok r")
    case True
    then show ?thesis using assms(3,5) by (simp add: call_upstream_def Let_def)
  next
    case False
    then show ?thesis using assms(3,4) by (simp add: call_upstream_def Let_def)
  qed
  have first: "fst (handleChatCompletions cfg w req requestId) =
      (if \<not> ok r
       then createErrorResponse
              (lit ''Upstream Error ('' @ number_to_string w (Finite (of_nat (upstream_status r)))
                 @ lit ''): '' @ raw)
              500 (lit ''generation_failed'')
       else if \<not> truthy success \<or> \<not> truthy resultText
       then createErrorResponse (lit ''Upstream Business Error: '' @ json_stringify w data)
              500 (lit ''generation_failed'')
       else if truthy stream then handleStreamResponse w resultText model requestId
       else handleNormalResponse w resultText model requestId)"
    using assms(1,2) call
    by (simp add: handleChatCompletions_def chat_completions_try_def message_def)
  show ?thesis
    unfolding first by simp
qed

theorem upstream_outcome_witness:
  "fst (handleChatCompletions (CONFIG None)
     (example_world
        (answering (JObj [(lit ''success'', JBool True), (lit ''data'', JStr (lit ''Hi there''))]))
        (clock_from 1700000000123) connected)
     (chat_request (JObj [(lit ''messages'', JArr [hello])])) (lit ''req-1''))
   = handleNormalResponse
       (example_world
          (answering (JObj [(lit ''success'', JBool True), (lit ''data'', JStr (lit ''Hi there''))]))
          (clock_from 1700000000123) connected)
       (JStr (lit ''Hi there'')) (JStr (lit ''teleprompt-reason'')) (lit ''req-1'')
   \<and> fst (handleChatCompletions (CONFIG None)
     (example_world (failing 500 (lit ''Internal Server Error''))
        (clock_from 1700000000123) connected)
     (chat_request (JObj [(lit ''messages'', JArr [hello])])) (lit ''req-1''))
   = createErrorResponse (lit ''Upstream Error (500): Internal Server Error'') 500
       (lit ''generation_failed'')"
  using upstream_outcome
    [where cfg = "CONFIG None"
       and w = "example_world
          (answering (JObj [(lit ''success'', JBool True), (lit ''data'', JStr (lit ''Hi there''))]))
          (clock_from 1700000000123) connected"
       and req = "chat_request (JObj [(lit ''messages'', JArr [hello])])"
       and body = "JObj [(lit ''messages'', JArr [hello])]"
       and prompt = "JStr (lit ''Hello'')"
       and model = "JStr (lit ''teleprompt-reason'')"
       and endpoint = "Own (lit ''/api/v1/prompt/optimize_reason_auth'')"
       and stream = JUndefined
       and r = "\<lparr>upstream_status = 200, upstream_text = Inr [],
                 upstream_json = Inr (JObj [(lit ''success'', JBool True),
                                            (lit ''data'', JStr (lit ''Hi there''))])\<rparr>"
       and raw = "[]"
       and data = "JObj [(lit ''success'', JBool True), (lit ''data'', JStr (lit ''Hi there''))]"
       and success = "JBool True"
       and resultText = "JStr (lit ''Hi there'')"
       and requestId = "lit ''req-1''"]
    upstream_outcome
    [where cfg = "CONFIG None"
       and w = "example_world (failing 500 (lit ''Internal Server Error''))
          (clock_from 1700000000123) connected"
       and req = "chat_request (JObj [(lit ''messages'', JArr [hello])])"
       and body = "JObj [(lit ''messages'', JArr [hello])]"
       and prompt = "JStr (lit ''Hello'')"
       and model = "JStr (lit ''teleprompt-reason'')"
       and endpoint = "Own (lit ''/api/v1/prompt/optimize_reason_auth'')"
       and stream = JUndefined
       and r = "\<lparr>upstream_status = 500, upstream_text = Inr (lit ''Internal Server Error''),
                 upstream_json = Inl (Error (lit ''JSON Parse error''))\<rparr>"
       and raw = "lit ''Internal Server Error''"
       and data = JUndefined
       and success = JUndefined
       and resultText = JUndefined
       and requestId = "lit ''req-1''"]
  by (simp add: chat_eval failing_def decimal.simps lit_append createErrorResponse_def)

text \<open>
  The claim as stated fails: a 200 response with \<^verbatim>\<open>success = true\<close> and the empty
  string as \<^verbatim>\<open>data\<close> is not accepted.
\<close>

theorem empty_data_rejected:
  "status (fst (handleChatCompletions (CONFIG None)
     (example_world (answering (JObj [(lit ''success'', JBool True), (lit ''data'', JStr [])]))
        (clock_from 1700000000123) connected)
     (chat_request (JObj [(lit ''messages'', JArr [hello])])) (lit ''req-1''))) = 500
   \<and> select (json_of (fst (handleChatCompletions (CONFIG None)
     (example_world (answering (JObj [(lit ''success'', JBool True), (lit ''data'', JStr [])]))
        (clock_from 1700000000123) connected)
     (chat_request (JObj [(lit ''messages'', JArr [hello])])) (lit ''req-1''))))
       [Key ''error'', Key ''code''] = JStr (lit ''generation_failed'')"
  by (simp add: chat_eval)


lemma find_user_skip:
  "\<forall>m \<in> set xs. \<exists>role. get_prop m (lit ''role'') = Inr role \<and> role \<noteq> JStr (lit ''user'') \<Longrightarrow>
   find_user (xs @ ys) = find_user ys"
  by (induction xs) auto

lemma js_or_array [simp]: "js_or (JArr xs) d = JArr xs"
  by (simp add: js_or_def)

lemma user_is_truthy:
  "get_prop u (lit ''role'') = Inr (JStr (lit ''user'')) \<Longrightarrow> truthy u"
  by (cases u) (auto split: if_splits)

text \<open>
  C4 as amended. For every \<^verbatim>\<open>POST /v1/chat/completions\<close> request whose body parses as
  a JSON value other than \<^verbatim>\<open>null\<close> and whose \<^verbatim>\<open>messages\<close> (the empty list when absent
  or falsy) is an array of values with a readable \<^verbatim>\<open>role\<close>, none equal to
  \<^verbatim>\<open>"user"\<close>, the response is exactly the \<^verbatim>\<open>invalid_request\<close> error with status 400,
  and nothing is sent upstream. A body that is not JSON, and the JSON body \<^verbatim>\<open>null\<close>
  (reading \<^verbatim>\<open>body.messages\<close> throws), give the \<^verbatim>\<open>generation_failed\<close> error with
  status 500.
\<close>

theorem no_user_message:
  "(request_json req = Inr body
      \<and> body \<noteq> JNull
      \<and> get_prop body (lit ''messages'') = Inr body_messages
      \<and> js_or body_messages (JArr []) = JArr ms
      \<and> (\<forall>m \<in> set ms. \<exists>role. get_prop m (lit ''role'') = Inr role \<and> role \<noteq> JStr (lit ''user''))
    \<longrightarrow> handleChatCompletions cfg w req requestId =
          (createErrorResponse (lit ''User message not found (role: user)'') 400
             (lit ''invalid_request''), []))
   \<and> (request_json req = Inl e
    \<longrightarrow> handleChatCompletions cfg w req requestId =
          (createErrorResponse (message w e) 500 (lit ''generation_failed''), []))
   \<and> (request_json req = Inr JNull
    \<longrightarrow> handleChatCompletions cfg w req requestId =
          (createErrorResponse (type_error_message w Nullish_Property) 500
             (lit ''generation_failed''), []))"
proof (intro conjI impI)
  assume a: "request_json req = Inr body
      \<and> body \<noteq> JNull
      \<and> get_prop body (lit ''messages'') = Inr body_messages
      \<and> js_or body_messages (JArr []) = JArr ms
      \<and> (\<forall>m \<in> set ms. \<exists>role. get_prop m (lit ''role'') = Inr role \<and> role \<noteq> JStr (lit ''user''))"
  then have "\<forall>m \<in> set (rev ms). \<exists>role. get_prop m (lit ''role'') = Inr role \<and> role \<noteq> JStr (lit ''user'')"
    by simp
  from find_user_skip [OF this, of "[]"] have "find_user (rev ms) = Inr JUndefined"
    by simp
  then have "translate cfg w req =
      Inr (Inl (createErrorResponse (lit ''User message not found (role: user)'') 400
                  (lit ''invalid_request'')))"
    using a by (simp add: translate_def)
  then show "handleChatCompletions cfg w req requestId =
          (createErrorResponse (lit ''User message not found (role: user)'') 400
             (lit ''invalid_request''), [])"
    by (simp add: handleChatCompletions_def chat_completions_try_def)
next
  assume "request_json req = Inl e"
  then show "handleChatCompletions cfg w req requestId =
          (createErrorResponse (message w e) 500 (lit ''generation_failed''), [])"
    by (simp add: handleChatCompletions_def chat_completions_try_def translate_def)
next
  assume "request_json req = Inr JNull"
  then show "handleChatCompletions cfg w req requestId =
          (createErrorResponse (type_error_message w Nullish_Property) 500
             (lit ''generation_failed''), [])"
    by (simp add: handleChatCompletions_def chat_completions_try_def translate_def message_def)
qed

theorem no_user_message_witness:
  "handleChatCompletions (CONFIG None)
     (example_world unreachable (clock_from 1700000000123) connected)
     (chat_request (JObj [(lit ''messages'',
        JArr [JObj [(lit ''role'', JStr (lit ''system'')), (lit ''content'', JStr (lit ''Be brief''))]])]))
     (lit ''req-1'')
   = (createErrorResponse (lit ''User message not found (role: user)'') 400
        (lit ''invalid_request''), [])
   \<and> handleChatCompletions (CONFIG None)
     (example_world unreachable (clock_from 1700000000123) connected)
     malformed_request (lit ''req-1'')
   = (createErrorResponse (lit ''JSON Parse error'') 500 (lit ''generation_failed''), [])
   \<and> handleChatCompletions (CONFIG None)
     (example_world unreachable (clock_from 1700000000123) connected)
     (chat_request JNull) (lit ''req-1'')
   = (createErrorResponse (lit ''TypeError'') 500 (lit ''generation_failed''), [])"
  using no_user_message
    [where req = "chat_request (JObj [(lit ''messages'',
        JArr [JObj [(lit ''role'', JStr (lit ''system'')), (lit ''content'', JStr (lit ''Be brief''))]])])"
       and body = "JObj [(lit ''messages'',
        JArr [JObj [(lit ''role'', JStr (lit ''system'')), (lit ''content'', JStr (lit ''Be brief''))]])]"
       and body_messages = "JArr [JObj [(lit ''role'', JStr (lit ''system'')),
                                         (lit ''content'', JStr (lit ''Be brief''))]]"
       and ms = "[JObj [(lit ''role'', JStr (lit ''system'')), (lit ''content'', JStr (lit ''Be brief''))]]"
       and cfg = "CONFIG None"
       and w = "example_world unreachable (clock_from 1700000000123) connected"
       and requestId = "lit ''req-1''"]
    no_user_message
    [where req = malformed_request and e = "Error (lit ''JSON Parse error'')"
       and cfg = "CONFIG None"
       and w = "example_world unreachable (clock_from 1700000000123) connected"
       and requestId = "lit ''req-1''"]
    no_user_message
    [where req = "chat_request JNull"
       and cfg = "CONFIG None"
       and w = "example_world unreachable (clock_from 1700000000123) connected"
       and requestId = "lit ''req-1''", THEN conjunct2, THEN conjunct2]
  by (simp add: chat_request_def malformed_request_def js_or_def message_def)
    (simp add: example_world_def)

text \<open>
  The claim as stated fails for a malformed body: the rejected \<^verbatim>\<open>request.json()\<close> is
  caught with every other exception and answered with status 500.
\<close>

theorem malformed_body_is_generation_failed:
  "status (fst (handleChatCompletions (CONFIG None)
     (example_world unreachable (clock_from 1700000000123) connected)
     malformed_request (lit ''req-1''))) = 500
   \<and> select (json_of (fst (handleChatCompletions (CONFIG None)
     (example_world unreachable (clock_from 1700000000123) connected)
     malformed_request (lit ''req-1''))))
       [Key ''error'', Key ''code''] = JStr (lit ''generation_failed'')"
  by (simp add: chat_eval)

lemma resolve_string:
  "resolve_endpoint cfg w (JStr s) =
     Inr (if truthy_property (lookup_model cfg s) then lookup_model cfg s
          else lookup_model cfg (DEFAULT_MODEL cfg))"
  by (simp add: resolve_endpoint_def)

lemma chosen_model_is_string:
  assumes "\<not> truthy body_model \<or> (\<exists>M. body_model = JStr M)"
  shows "\<exists>s. js_or body_model (JStr d) = JStr s"
  using assms by (auto simp: js_or_def)

text \<open>
  C8. Let the messages be \<open>before @ u # after\<close>, where \<open>u\<close> has role \<^verbatim>\<open>"user"\<close> and no
  message of \<open>after\<close> has: \<open>u\<close> is the most recent user message. Then whatever
  \<open>before\<close> and \<open>after\<close> hold, and whichever model the request names (a string,
  registered or not) or leaves out, exactly one request is sent upstream and it carries
  the payload \<^verbatim>\<open>{ text: C }\<close> with \<open>C\<close> the content of \<open>u\<close>. For a model of any other
  type the same request is sent unless the model cannot be converted to a property
  key, in which case the handler fails before anything is sent.
\<close>

theorem payload_is_last_user_content:
  assumes "request_json req = Inr body"
      and "get_prop body (lit ''messages'') = Inr (JArr (before @ u # after))"
      and "get_prop u (lit ''role'') = Inr (JStr (lit ''user''))"
      and "get_prop u (lit ''content'') = Inr C"
      and "\<forall>m \<in> set after. \<exists>role. get_prop m (lit ''role'') = Inr role \<and> role \<noteq> JStr (lit ''user'')"
      and "get_prop body (lit ''model'') = Inr body_model"
  shows "(\<not> truthy body_model \<or> (\<exists>M. body_model = JStr M)
          \<longrightarrow> map payload (snd (handleChatCompletions cfg w req requestId))
                = [JObj [(lit ''text'', C)]])
       \<and> map payload (snd (handleChatCompletions cfg w req requestId)) =
          (case to_string w (js_or body_model (JStr (DEFAULT_MODEL cfg))) of
             Inl e \<Rightarrow> []
           | Inr key \<Rightarrow> [JObj [(lit ''text'', C)]])"
proof -
  have "\<forall>m \<in> set (rev after). \<exists>role. get_prop m (lit ''role'') = Inr role \<and> role \<noteq> JStr (lit ''user'')"
    using assms(5) by simp
  from find_user_skip [OF this, of "u # rev before"]
  have found: "find_user (rev (before @ u # after)) = Inr u"
    using assms(3) by simp
  have t: "translate cfg w req =
      (case resolve_endpoint cfg w (js_or body_model (JStr (DEFAULT_MODEL cfg))) of
         Inl e \<Rightarrow> Inl e
       | Inr endpoint \<Rightarrow>
           Inr (Inr (body, C, js_or body_model (JStr (DEFAULT_MODEL cfg)), endpoint)))"
    using assms(1,2,4,6) found user_is_truthy [OF assms(3)]
    by (simp add: translate_def Let_def)
  have general: "map payload (snd (handleChatCompletions cfg w req requestId)) =
          (case to_string w (js_or body_model (JStr (DEFAULT_MODEL cfg))) of
             Inl e \<Rightarrow> []
           | Inr key \<Rightarrow> [JObj [(lit ''text'', C)]])"
    using t
    by (simp add: sent_handleChatCompletions sent_call_upstream resolve_endpoint_def
          split: sum.splits)
  have named: "map payload (snd (handleChatCompletions cfg w req requestId))
                = [JObj [(lit ''text'', C)]]"
    if "\<not> truthy body_model \<or> (\<exists>M. body_model = JStr M)"
  proof -
    from chosen_model_is_string [OF that] obtain s where
      "js_or body_model (JStr (DEFAULT_MODEL cfg)) = JStr s" by blast
    then show ?thesis using general by simp
  qed
  show ?thesis using named general by blast
qed

theorem payload_is_last_user_content_witness:
  "map payload (snd (handleChatCompletions (CONFIG None)
     (example_world unreachable (clock_from 1700000000123) connected)
     (chat_request (JObj [(lit ''messages'', JArr
        [JObj [(lit ''role'', JStr (lit ''user'')), (lit ''content'', JStr (lit ''First''))],
         JObj [(lit ''role'', JStr (lit ''assistant'')), (lit ''content'', JStr (lit ''Reply''))],
         hello,
         JObj [(lit ''role'', JStr (lit ''system'')), (lit ''content'', JStr (lit ''Be brief''))]])]))
     (lit ''req-1'')))
   = [JObj [(lit ''text'', JStr (lit ''Hello''))]]
   \<and> map payload (snd (handleChatCompletions (CONFIG None)
     (example_world unreachable (clock_from 1700000000123) connected)
     (chat_request (JObj [(lit ''model'', JStr (lit ''teleprompt-standard'')),
        (lit ''messages'', JArr
          [hello,
           JObj [(lit ''role'', JStr (lit ''assistant'')), (lit ''content'', JStr (lit ''Reply''))]])]))
     (lit ''req-1'')))
   = [JObj [(lit ''text'', JStr (lit ''Hello''))]]"
  using payload_is_last_user_content
    [where req = "chat_request (JObj [(lit ''messages'', JArr
        [JObj [(lit ''role'', JStr (lit ''user'')), (lit ''content'', JStr (lit ''First''))],
         JObj [(lit ''role'', JStr (lit ''assistant'')), (lit ''content'', JStr (lit ''Reply''))],
         hello,
         JObj [(lit ''role'', JStr (lit ''system'')), (lit ''content'', JStr (lit ''Be brief''))]])])"
       and body = "JObj [(lit ''messages'', JArr
        [JObj [(lit ''role'', JStr (lit ''user'')), (lit ''content'', JStr (lit ''First''))],
         JObj [(lit ''role'', JStr (lit ''assistant'')), (lit ''content'', JStr (lit ''Reply''))],
         hello,
         JObj [(lit ''role'', JStr (lit ''system'')), (lit ''content'', JStr (lit ''Be brief''))]])]"
       and before = "[JObj [(lit ''role'', JStr (lit ''user'')), (lit ''content'', JStr (lit ''First''))],
         JObj [(lit ''role'', JStr (lit ''assistant'')), (lit ''content'', JStr (lit ''Reply''))]]"
       and u = hello
       and after = "[JObj [(lit ''role'', JStr (lit ''system'')), (lit ''content'', JStr (lit ''Be brief''))]]"
       and C = "JStr (lit ''Hello'')"
       and body_model = JUndefined
       and cfg = "CONFIG None"
       and w = "example_world unreachable (clock_from 1700000000123) connected"
       and requestId = "lit ''req-1''"]
    payload_is_last_user_content
    [where req = "chat_request (JObj [(lit ''model'', JStr (lit ''teleprompt-standard'')),
        (lit ''messages'', JArr
          [hello,
           JObj [(lit ''role'', JStr (lit ''assistant'')), (lit ''content'', JStr (lit ''Reply''))]])])"
       and body = "JObj [(lit ''model'', JStr (lit ''teleprompt-standard'')),
        (lit ''messages'', JArr
          [hello,
           JObj [(lit ''role'', JStr (lit ''assistant'')), (lit ''content'', JStr (lit ''Reply''))]])]"
       and before = "[]"
       and u = hello
       and after = "[JObj [(lit ''role'', JStr (lit ''assistant'')), (lit ''content'', JStr (lit ''Reply''))]]"
       and C = "JStr (lit ''Hello'')"
       and body_model = "JStr (lit ''teleprompt-standard'')"
       and cfg = "CONFIG None"
       and w = "example_world unreachable (clock_from 1700000000123) connected"
       and requestId = "lit ''req-1''"]
  by (simp add: chat_request_def hello_def)

section \<open>Model resolution and the echoed model\<close>

lemma stream_body:
  "response_body (handleStreamResponse w t m r) =
     Event_Stream (stream_of (handleStreamResponse w t m r))"
  by (simp add: handleStreamResponse_def stream_of_def split: prod.splits bool.splits)

lemma resolve_unknown:
  assumes "M \<notin> fst ` set (MODEL_MAP (CONFIG k))" and "M \<notin> set object_prototype_names"
  shows "resolve_endpoint (CONFIG k) w (JStr M) =
           Inr (Own (lit ''/api/v1/prompt/optimize_reason_auth''))"
proof -
  have "map_of (MODEL_MAP (CONFIG k)) M = None"
    using assms(1) by (simp add: map_of_eq_None_iff)
  then have "lookup_model (CONFIG k) M = Missing"
    using assms(2) by (simp add: lookup_model_def)
  moreover have "lookup_model (CONFIG k) (DEFAULT_MODEL (CONFIG k)) =
      Own (lit ''/api/v1/prompt/optimize_reason_auth'')"
    by (simp add: lookup_model_def CONFIG_def)
  ultimately show ?thesis by (simp add: resolve_endpoint_def)
qed

text \<open>
  C9, at the failing input. The model name \<^verbatim>\<open>constructor\<close> is not a key of the
  registry, yet resolution does not fall back to the default endpoint: it yields the
  member \<^verbatim>\<open>Object.prototype.constructor\<close>, and the URL passed to \<^verbatim>\<open>fetch\<close> is the
  origin followed by the text of that function.
\<close>

theorem inherited_name_is_not_resolved:
  "lit ''constructor'' \<notin> fst ` set (MODEL_MAP (CONFIG None))
   \<and> resolve_endpoint (CONFIG None)
        (example_world unreachable (clock_from 1700000000123) connected)
        (JStr (lit ''constructor'')) = Inr (Inherited (lit ''constructor''))
   \<and> map url (snd (handleChatCompletions (CONFIG None)
        (example_world unreachable (clock_from 1700000000123) connected)
        (chat_request (JObj [(lit ''messages'', JArr [hello]),
                             (lit ''model'', JStr (lit ''constructor''))]))
        (lit ''req-1'')))
     = [lit ''https://teleprompt-v2-backend-production.up.railway.app'' @
        builtin_to_string (example_world unreachable (clock_from 1700000000123) connected)
          (lit ''constructor'')]
   \<and> lookup_model (CONFIG None) (DEFAULT_MODEL (CONFIG None))
       = Own (lit ''/api/v1/prompt/optimize_reason_auth'')"
  by (simp add: chat_eval)

text \<open>
  C10 as amended. For every request that is answered with a completion: when the request
  names a non-empty string \<open>M\<close> as its model, registered or not, the model echoed in the
  non-streaming completion and in every chunk of the stream is \<open>M\<close>; when the model is
  absent or falsy, as the empty string is, the default model id is echoed. When \<open>M\<close> is
  neither a key of the registry nor the name of a member of \<^verbatim>\<open>Object.prototype\<close>, the
  upstream call goes to the endpoint of the default model.
\<close>

theorem model_is_echoed:
  assumes "request_json req = Inr body"
      and "get_prop body (lit ''model'') = Inr v"
      and "handleChatCompletions cfg w req requestId = (resp, sent)"
      and "status resp = 200"
  shows "(\<forall>M. v = JStr M \<and> M \<noteq> []
            \<longrightarrow> (case response_body resp of
                   Json c \<Rightarrow> select c [Key ''model''] = JStr M
                 | Event_Stream recs \<Rightarrow>
                     (\<forall>x \<in> set recs. x = DONE \<or> select (data_of x) [Key ''model''] = JStr M)
                 | No_Body \<Rightarrow> False))
       \<and> (\<not> truthy v
            \<longrightarrow> (case response_body resp of
                   Json c \<Rightarrow> select c [Key ''model''] = JStr (DEFAULT_MODEL cfg)
                 | Event_Stream recs \<Rightarrow>
                     (\<forall>x \<in> set recs. x = DONE
                        \<or> select (data_of x) [Key ''model''] = JStr (DEFAULT_MODEL cfg))
                 | No_Body \<Rightarrow> False))
       \<and> (\<forall>M k. v = JStr M \<and> M \<noteq> [] \<and> cfg = CONFIG k
              \<and> M \<notin> fst ` set (MODEL_MAP cfg) \<and> M \<notin> set object_prototype_names
            \<longrightarrow> map url sent =
                  [UPSTREAM_ORIGIN cfg @ lit ''/api/v1/prompt/optimize_reason_auth''])"
proof -
  obtain body' prompt model endpoint resultText stream where
    t: "translate cfg w req = Inr (Inr (body', prompt, model, endpoint))" and
    c: "call_upstream cfg w endpoint prompt = (Inr resultText, sent)" and
    s: "get_prop body' (lit ''stream'') = Inr stream" and
    r: "resp = (if truthy stream then handleStreamResponse w resultText model requestId
                else handleNormalResponse w resultText model requestId)"
    by (rule handle_accepted [OF assms(3,4)])
  obtain body_messages lastMsg body_model where
    b: "request_json req = Inr body'" and
    "get_prop body' (lit ''messages'') = Inr body_messages" and
    "reverse_find_user (js_or body_messages (JArr [])) = Inr lastMsg" and
    "truthy lastMsg" and
    "get_prop lastMsg (lit ''content'') = Inr prompt" and
    bm: "get_prop body' (lit ''model'') = Inr body_model" and
    md: "model = js_or body_model (JStr (DEFAULT_MODEL cfg))" and
    e: "resolve_endpoint cfg w model = Inr endpoint"
    by (rule translate_elim [OF t])
  have "body' = body" using b assms(1) by simp
  then have "body_model = v" using bm assms(2) by simp
  then have m: "model = (if truthy v then v else JStr (DEFAULT_MODEL cfg))"
    using md by (simp add: js_or_def)
  have echo: "(case response_body resp of
            Json c \<Rightarrow> select c [Key ''model''] = model
          | Event_Stream recs \<Rightarrow>
              (\<forall>x \<in> set recs. x = DONE \<or> select (data_of x) [Key ''model''] = model)
          | No_Body \<Rightarrow> False)"
  proof (cases "truthy stream")
    case False
    then show ?thesis using r by (simp add: handleNormalResponse_def)
  next
    case True
    then have resp: "resp = handleStreamResponse w resultText model requestId" using r by simp
    have recs: "response_body resp =
        Event_Stream (stream_of (handleStreamResponse w resultText model requestId))"
      unfolding resp by (rule stream_body)
    have "x = DONE \<or> select (data_of x) [Key ''model''] = model"
      if "x \<in> set (stream_of (handleStreamResponse w resultText model requestId))" for x
      using stream_model [of x w resultText model requestId] that by simp
    then show ?thesis using recs by simp
  qed
  have target: "map url sent = [UPSTREAM_ORIGIN cfg @ lit ''/api/v1/prompt/optimize_reason_auth'']"
    if "v = JStr M" "M \<noteq> []" "cfg = CONFIG k" "M \<notin> fst ` set (MODEL_MAP cfg)"
       "M \<notin> set object_prototype_names" for M k
  proof -
    have "model = JStr M" using m that(1,2) by simp
    then have "endpoint = Own (lit ''/api/v1/prompt/optimize_reason_auth'')"
      using resolve_unknown [of M k w] that e by simp
    moreover have "sent = snd (call_upstream cfg w endpoint prompt)" using c by simp
    ultimately show ?thesis by (simp add: sent_call_upstream)
  qed
  show ?thesis
  proof (intro conjI allI impI)
    fix M
    assume "v = JStr M \<and> M \<noteq> []"
    then have named: "model = JStr M" using m by simp
    show "(case response_body resp of
                   Json c \<Rightarrow> select c [Key ''model''] = JStr M
                 | Event_Stream recs \<Rightarrow>
                     (\<forall>x \<in> set recs. x = DONE \<or> select (data_of x) [Key ''model''] = JStr M)
                 | No_Body \<Rightarrow> False)"
      unfolding named [symmetric] by (rule echo)
  next
    assume "\<not> truthy v"
    then have default: "model = JStr (DEFAULT_MODEL cfg)" using m by simp
    show "(case response_body resp of
                   Json c \<Rightarrow> select c [Key ''model''] = JStr (DEFAULT_MODEL cfg)
                 | Event_Stream recs \<Rightarrow>
                     (\<forall>x \<in> set recs. x = DONE
                        \<or> select (data_of x) [Key ''model''] = JStr (DEFAULT_MODEL cfg))
                 | No_Body \<Rightarrow> False)"
      unfolding default [symmetric] by (rule echo)
  next
    fix M k
    assume "v = JStr M \<and> M \<noteq> [] \<and> cfg = CONFIG k
              \<and> M \<notin> fst ` set (MODEL_MAP cfg) \<and> M \<notin> set object_prototype_names"
    then have "v = JStr M" and "M \<noteq> []" and "cfg = CONFIG k"
      and "M \<notin> fst ` set (MODEL_MAP cfg)" and "M \<notin> set object_prototype_names"
      by blast+
    then show "map url sent = [UPSTREAM_ORIGIN cfg @ lit ''/api/v1/prompt/optimize_reason_auth'']"
      by (rule target)
  qed
qed

theorem model_is_echoed_witness:
  "select (json_of (fst (handleChatCompletions (CONFIG None)
      (example_world
         (answering (JObj [(lit ''success'', JBool True), (lit ''data'', JStr (lit ''Hi there''))]))
         (clock_from 1700000000123) connected)
      (chat_request (JObj [(lit ''messages'', JArr [hello]), (lit ''model'', JStr (lit ''gpt-4''))]))
      (lit ''req-1'')))) [Key ''model''] = JStr (lit ''gpt-4'')
   \<and> map url (snd (handleChatCompletions (CONFIG None)
      (example_world
         (answering (JObj [(lit ''success'', JBool True), (lit ''data'', JStr (lit ''Hi there''))]))
         (clock_from 1700000000123) connected)
      (chat_request (JObj [(lit ''messages'', JArr [hello]), (lit ''model'', JStr (lit ''gpt-4''))]))
      (lit ''req-1'')))
     = [lit ''https://teleprompt-v2-backend-production.up.railway.app'' @
        lit ''/api/v1/prompt/optimize_reason_auth'']
   \<and> select (json_of (fst (handleChatCompletions (CONFIG None)
      (example_world
         (answering (JObj [(lit ''success'', JBool True), (lit ''data'', JStr (lit ''Hi there''))]))
         (clock_from 1700000000123) connected)
      (chat_request (JObj [(lit ''messages'', JArr [hello])]))
      (lit ''req-1'')))) [Key ''model''] = JStr (lit ''teleprompt-reason'')"
  using model_is_echoed
    [where req = "chat_request (JObj [(lit ''messages'', JArr [hello]),
                                      (lit ''model'', JStr (lit ''gpt-4''))])"
       and body = "JObj [(lit ''messages'', JArr [hello]), (lit ''model'', JStr (lit ''gpt-4''))]"
       and v = "JStr (lit ''gpt-4'')"
       and cfg = "CONFIG None"
       and w = "example_world
         (answering (JObj [(lit ''success'', JBool True), (lit ''data'', JStr (lit ''Hi there''))]))
         (clock_from 1700000000123) connected"
       and requestId = "lit ''req-1''"
       and resp = "fst (handleChatCompletions (CONFIG None)
         (example_world
           (answering (JObj [(lit ''success'', JBool True), (lit ''data'', JStr (lit ''Hi there''))]))
           (clock_from 1700000000123) connected)
         (chat_request (JObj [(lit ''messages'', JArr [hello]), (lit ''model'', JStr (lit ''gpt-4''))]))
         (lit ''req-1''))"
       and sent = "snd (handleChatCompletions (CONFIG None)
         (example_world
           (answering (JObj [(lit ''success'', JBool True), (lit ''data'', JStr (lit ''Hi there''))]))
           (clock_from 1700000000123) connected)
         (chat_request (JObj [(lit ''messages'', JArr [hello]), (lit ''model'', JStr (lit ''gpt-4''))]))
         (lit ''req-1''))"]
    model_is_echoed
    [where req = "chat_request (JObj [(lit ''messages'', JArr [hello])])"
       and body = "JObj [(lit ''messages'', JArr [hello])]"
       and v = JUndefined
       and cfg = "CONFIG None"
       and w = "example_world
         (answering (JObj [(lit ''success'', JBool True), (lit ''data'', JStr (lit ''Hi there''))]))
         (clock_from 1700000000123) connected"
       and requestId = "lit ''req-1''"
       and resp = "fst (handleChatCompletions (CONFIG None)
         (example_world
           (answering (JObj [(lit ''success'', JBool True), (lit ''data'', JStr (lit ''Hi there''))]))
           (clock_from 1700000000123) connected)
         (chat_request (JObj [(lit ''messages'', JArr [hello])]))
         (lit ''req-1''))"
       and sent = "snd (handleChatCompletions (CONFIG None)
         (example_world
           (answering (JObj [(lit ''success'', JBool True), (lit ''data'', JStr (lit ''Hi there''))]))
           (clock_from 1700000000123) connected)
         (chat_request (JObj [(lit ''messages'', JArr [hello])]))
         (lit ''req-1''))"]
  by (simp add: chat_eval handleNormalResponse_def json_of_def)

text \<open>
  The claim as stated fails for the empty model name: it is falsy, so the default model
  id is echoed and not the client's string.
\<close>

theorem empty_model_echoes_default:
  "select (json_of (fst (handleChatCompletions (CONFIG None)
      (example_world
         (answering (JObj [(lit ''success'', JBool True), (lit ''data'', JStr (lit ''Hi there''))]))
         (clock_from 1700000000123) connected)
      (chat_request (JObj [(lit ''messages'', JArr [hello]), (lit ''model'', JStr [])]))
      (lit ''req-1'')))) [Key ''model''] = JStr (lit ''teleprompt-reason'')
   \<and> lit ''teleprompt-reason'' \<noteq> ([] :: jsstring)"
  by (simp add: chat_eval handleNormalResponse_def json_of_def)


section \<open>The bearer check\<close>

lemma status_dispatch:
  "status (fst (dispatch cfg w req)) \<noteq> 401 \<and> status (fst (dispatch cfg w req)) \<noteq> 403"
proof -
  have chat: "status (fst (handleChatCompletions cfg w req rid)) \<noteq> 401
      \<and> status (fst (handleChatCompletions cfg w req rid)) \<noteq> 403" for rid
    by (auto simp: handleChatCompletions_def chat_completions_try_def
             dest!: translate_early split: sum.splits prod.splits)
  show ?thesis
    using chat by (simp add: dispatch_def Let_def handleModelsRequest_def)
qed

lemma api_key_nonempty: "API_MASTER_KEY (CONFIG k) \<noteq> []"
  by (simp add: CONFIG_def split: option.splits)

lemma not_root: "startsWith p (lit ''/v1/'') \<Longrightarrow> p \<noteq> lit ''/''"
  by (auto simp: startsWith_def lit_simps)

text \<open>
  C5 as amended. Let the master key be the one configured from the environment, and
  take any request to a \<^verbatim>\<open>/v1/*\<close> path. An \<^verbatim>\<open>OPTIONS\<close> request is answered 204 as a
  CORS preflight, before any check. Any other request is treated as follows. When the
  key differs from the sentinel \<^verbatim>\<open>"1"\<close>: a missing or empty header, or one that does not
  start with \<^verbatim>\<open>Bearer \<close>, receives 401; a bearer token different from the key receives
  403; the header \<^verbatim>\<open>Bearer \<close> followed by exactly the key is dispatched and receives
  neither 401 nor 403. When the key is the sentinel, the request is dispatched; and
  then no request at all, to whatever path, receives 401 or 403.
\<close>

theorem bearer_check:
  "(startsWith (pathname req) (lit ''/v1/'') \<longrightarrow>
      (request_method req = lit ''OPTIONS''
          \<longrightarrow> serve (CONFIG k) w req = (handleCorsPreflight, [])
              \<and> status (fst (serve (CONFIG k) w req)) = 204)
       \<and> (request_method req \<noteq> lit ''OPTIONS''
            \<and> API_MASTER_KEY (CONFIG k) \<noteq> lit ''1''
            \<and> authorization req \<noteq> Some (lit ''Bearer '' @ API_MASTER_KEY (CONFIG k))
          \<longrightarrow> serve (CONFIG k) w req =
                (if (case authorization req of
                       None \<Rightarrow> True
                     | Some h \<Rightarrow> h = [] \<or> \<not> startsWith h (lit ''Bearer ''))
                 then (createErrorResponse (lit ''Missing or invalid Authorization header.'')
                         401 (lit ''unauthorized''), [])
                 else (createErrorResponse (lit ''Invalid API Key.'')
                         403 (lit ''invalid_api_key''), [])))
       \<and> (request_method req \<noteq> lit ''OPTIONS''
            \<and> (authorization req = Some (lit ''Bearer '' @ API_MASTER_KEY (CONFIG k))
                \<or> API_MASTER_KEY (CONFIG k) = lit ''1'')
          \<longrightarrow> serve (CONFIG k) w req = dispatch (CONFIG k) w req
              \<and> status (fst (serve (CONFIG k) w req)) \<noteq> 401
              \<and> status (fst (serve (CONFIG k) w req)) \<noteq> 403))
   \<and> (API_MASTER_KEY (CONFIG k) = lit ''1''
       \<longrightarrow> status (fst (serve (CONFIG k) w req)) \<noteq> 401
           \<and> status (fst (serve (CONFIG k) w req)) \<noteq> 403)"
proof -
  have bearer: "drop 7 (lit ''Bearer '' @ key) = key"
    "startsWith (lit ''Bearer '' @ key) (lit ''Bearer '')" "lit ''Bearer '' @ key \<noteq> []" for key
    by (simp_all add: startsWith_def lit_simps)
  have rejected: "handleApi (CONFIG k) w req =
        (if (case authorization req of
               None \<Rightarrow> True
             | Some h \<Rightarrow> h = [] \<or> \<not> startsWith h (lit ''Bearer ''))
         then (createErrorResponse (lit ''Missing or invalid Authorization header.'')
                 401 (lit ''unauthorized''), [])
         else (createErrorResponse (lit ''Invalid API Key.'')
                 403 (lit ''invalid_api_key''), []))"
    if key: "API_MASTER_KEY (CONFIG k) \<noteq> lit ''1''"
      and other: "authorization req \<noteq> Some (lit ''Bearer '' @ API_MASTER_KEY (CONFIG k))"
  proof (cases "authorization req")
    case None
    then show ?thesis using key api_key_nonempty [of k] by (simp add: handleApi_def Let_def)
  next
    case (Some h)
    show ?thesis
    proof (cases "h = [] \<or> \<not> startsWith h (lit ''Bearer '')")
      case True
      then show ?thesis
        using Some key api_key_nonempty [of k] by (auto simp: handleApi_def Let_def)
    next
      case False
      have "length (lit ''Bearer '') = 7" by (simp add: lit_def)
      with False have "take 7 h = lit ''Bearer ''" by (simp add: startsWith_def)
      then have "h = lit ''Bearer '' @ drop 7 h" by (metis append_take_drop_id)
      then have "drop 7 h \<noteq> API_MASTER_KEY (CONFIG k)" using other Some by auto
      then show ?thesis
        using Some False key api_key_nonempty [of k] by (simp add: handleApi_def Let_def)
    qed
  qed
  have accepted: "handleApi (CONFIG k) w req = dispatch (CONFIG k) w req"
    if "authorization req = Some (lit ''Bearer '' @ API_MASTER_KEY (CONFIG k))
        \<or> API_MASTER_KEY (CONFIG k) = lit ''1''"
    using that bearer by (auto simp: handleApi_def Let_def)
  have gate: "(request_method req = lit ''OPTIONS''
          \<longrightarrow> serve (CONFIG k) w req = (handleCorsPreflight, [])
              \<and> status (fst (serve (CONFIG k) w req)) = 204)
       \<and> (request_method req \<noteq> lit ''OPTIONS''
            \<and> API_MASTER_KEY (CONFIG k) \<noteq> lit ''1''
            \<and> authorization req \<noteq> Some (lit ''Bearer '' @ API_MASTER_KEY (CONFIG k))
          \<longrightarrow> serve (CONFIG k) w req =
                (if (case authorization req of
                       None \<Rightarrow> True
                     | Some h \<Rightarrow> h = [] \<or> \<not> startsWith h (lit ''Bearer ''))
                 then (createErrorResponse (lit ''Missing or invalid Authorization header.'')
                         401 (lit ''unauthorized''), [])
                 else (createErrorResponse (lit ''Invalid API Key.'')
                         403 (lit ''invalid_api_key''), [])))
       \<and> (request_method req \<noteq> lit ''OPTIONS''
            \<and> (authorization req = Some (lit ''Bearer '' @ API_MASTER_KEY (CONFIG k))
                \<or> API_MASTER_KEY (CONFIG k) = lit ''1'')
          \<longrightarrow> serve (CONFIG k) w req = dispatch (CONFIG k) w req
              \<and> status (fst (serve (CONFIG k) w req)) \<noteq> 401
              \<and> status (fst (serve (CONFIG k) w req)) \<noteq> 403)"
    if path: "startsWith (pathname req) (lit ''/v1/'')"
  proof -
    have preflight: "serve (CONFIG k) w req = (handleCorsPreflight, [])
        \<and> status (fst (serve (CONFIG k) w req)) = 204"
      if "request_method req = lit ''OPTIONS''"
      using that by (simp add: serve_def handleCorsPreflight_def)
    have route: "serve (CONFIG k) w req = handleApi (CONFIG k) w req"
      if "request_method req \<noteq> lit ''OPTIONS''"
      using that not_root [OF path] path by (simp add: serve_def)
    show ?thesis
      using preflight rejected accepted status_dispatch [of "CONFIG k" w req] route
      by (simp add: handleCorsPreflight_def)
  qed
  have open_gate: "status (fst (serve (CONFIG k) w req)) \<noteq> 401
           \<and> status (fst (serve (CONFIG k) w req)) \<noteq> 403"
    if "API_MASTER_KEY (CONFIG k) = lit ''1''"
    using accepted that status_dispatch [of "CONFIG k" w req]
    by (simp add: serve_def handleCorsPreflight_def)
  show ?thesis using gate open_gate by blast
qed

theorem bearer_check_witness:
  "status (fst (serve (CONFIG (Some (lit ''secret'')))
     (example_world unreachable (clock_from 1700000000123) connected)
     \<lparr>request_method = lit ''GET'', pathname = lit ''/v1/models'',
      authorization = Some (lit ''Bearer wrong''),
      request_json = Inl (Error (lit ''JSON Parse error''))\<rparr>)) = 403
   \<and> status (fst (serve (CONFIG (Some (lit ''secret'')))
     (example_world unreachable (clock_from 1700000000123) connected)
     \<lparr>request_method = lit ''GET'', pathname = lit ''/v1/models'',
      authorization = Some (lit ''Bearer secret''),
      request_json = Inl (Error (lit ''JSON Parse error''))\<rparr>)) = 200
   \<and> status (fst (serve (CONFIG (Some (lit ''secret'')))
     (example_world unreachable (clock_from 1700000000123) connected)
     \<lparr>request_method = lit ''OPTIONS'', pathname = lit ''/v1/models'',
      authorization = None,
      request_json = Inl (Error (lit ''JSON Parse error''))\<rparr>)) = 204"
  using bearer_check
    [where req = "\<lparr>request_method = lit ''GET'', pathname = lit ''/v1/models'',
                    authorization = Some (lit ''Bearer wrong''),
                    request_json = Inl (Error (lit ''JSON Parse error''))\<rparr>"
       and k = "Some (lit ''secret'')"
       and w = "example_world unreachable (clock_from 1700000000123) connected"]
    bearer_check
    [where req = "\<lparr>request_method = lit ''GET'', pathname = lit ''/v1/models'',
                    authorization = Some (lit ''Bearer secret''),
                    request_json = Inl (Error (lit ''JSON Parse error''))\<rparr>"
       and k = "Some (lit ''secret'')"
       and w = "example_world unreachable (clock_from 1700000000123) connected"]
    bearer_check
    [where req = "\<lparr>request_method = lit ''OPTIONS'', pathname = lit ''/v1/models'',
                    authorization = None,
                    request_json = Inl (Error (lit ''JSON Parse error''))\<rparr>"
       and k = "Some (lit ''secret'')"
       and w = "example_world unreachable (clock_from 1700000000123) connected"]
  by (simp add: startsWith_def CONFIG_def lit_simps dispatch_def handleModelsRequest_def
        handleCorsPreflight_def)

text \<open>
  The claim as stated fails for a preflight: with a master key configured, an
  \<^verbatim>\<open>OPTIONS\<close> request to a \<^verbatim>\<open>/v1/*\<close> path that carries no token is answered 204.
\<close>

theorem preflight_skips_bearer_check:
  "startsWith (lit ''/v1/chat/completions'') (lit ''/v1/'')
   \<and> API_MASTER_KEY (CONFIG (Some (lit ''secret''))) \<noteq> lit ''1''
   \<and> status (fst (serve (CONFIG (Some (lit ''secret'')))
     (example_world unreachable (clock_from 1700000000123) connected)
     \<lparr>request_method = lit ''OPTIONS'', pathname = lit ''/v1/chat/completions'',
      authorization = None,
      request_json = Inl (Error (lit ''JSON Parse error''))\<rparr>)) = 204"
  by (simp add: serve_def handleCorsPreflight_def startsWith_def CONFIG_def lit_simps)


end
